theory Spec2Isabelle
  imports Complex_Main "HOL-Library.Product_Lexorder"
begin

section \<open>Source collections\<close>

text \<open>
  The four raw collections read by the ETL scripts. Every column is nullable (the explicit
  schemas of \<open>business_owners_and_managers_ETL.py\<close> declare each field with
  \<open>nullable = True\<close>; a JSON line that lacks a field gives a null), so every
  column is an \<open>option\<close>. Star ratings and coordinates are floats in the source and
  are idealised as rationals.
\<close>

record business =
  b_business_id :: "string option"
  b_name :: "string option"
  b_address :: "string option"
  b_city :: "string option"
  b_state :: "string option"
  b_postal_code :: "string option"
  b_latitude :: "rat option"
  b_longitude :: "rat option"
  b_stars :: "rat option"
  b_review_count :: "int option"
  b_is_open :: "int option"
  b_categories :: "string option"

record review =
  r_review_id :: "string option"
  r_user_id :: "string option"
  r_business_id :: "string option"
  r_stars :: "rat option"
  r_date :: "string option"

record tip =
  t_user_id :: "string option"
  t_business_id :: "string option"
  t_date :: "string option"

record checkin =
  c_business_id :: "string option"
  c_date :: "string option"

text \<open>A calendar date as the date functions of Spark and pandas see it.\<close>

datatype date = Date (year: nat) (month: nat) (day: nat)

section \<open>String primitives of the execution substrate\<close>

text \<open>
  \<open>F.split(col, ", ")\<close> and pandas' \<open>.str.split(', ')\<close>: split on the literal
  two-character delimiter, keeping every piece (leading, inner and trailing empty pieces
  included; the empty string gives one empty piece).
\<close>

fun split_comma_space :: "string \<Rightarrow> string list" where
  "split_comma_space [] = [[]]"
| "split_comma_space [c] = [[c]]"
| "split_comma_space (c # d # cs) =
     (if c = CHR '','' \<and> d = CHR '' '' then [] # split_comma_space cs
      else (case split_comma_space (d # cs) of
              [] \<Rightarrow> [[c]]
            | p # ps \<Rightarrow> (c # p) # ps))"

text \<open>Split on one character, keeping every piece.\<close>

fun split_char :: "char \<Rightarrow> string \<Rightarrow> string list" where
  "split_char k [] = [[]]"
| "split_char k (c # cs) =
     (if c = k then [] # split_char k cs
      else (case split_char k cs of
              [] \<Rightarrow> [[c]]
            | p # ps \<Rightarrow> (c # p) # ps))"

text \<open>The characters matched by the regular expression class \<open>\s\<close>.\<close>

definition is_space :: "char \<Rightarrow> bool" where
  "is_space c \<longleftrightarrow> c \<in> set [CHR '' '', CHR 0x09, CHR 0x0A, CHR 0x0B, CHR 0x0C, CHR 0x0D]"

text \<open>
  \<open>F.split(col, ",\s*")\<close>: a delimiter is a comma together with all the whitespace that
  follows it. A delimiter always starts at a comma and whitespace holds no comma, so the
  pieces are those of a split on the comma, each piece after the first one without its
  leading whitespace.
\<close>

definition split_comma_ws :: "string \<Rightarrow> string list" where
  "split_comma_ws s =
     (case split_char (CHR '','') s of
        [] \<Rightarrow> []
      | p # ps \<Rightarrow> p # map (dropWhile is_space) ps)"

text \<open>\<open>F.trim\<close>: remove the space characters at both ends.\<close>

definition trim :: "string \<Rightarrow> string" where
  "trim s = rev (dropWhile (\<lambda>c. c = CHR '' '') (rev (dropWhile (\<lambda>c. c = CHR '' '') s)))"

text \<open>
  \<open>distinct()\<close> / \<open>drop_duplicates()\<close>: one copy of every row, at its first occurrence.
\<close>

fun drop_duplicates :: "'a list \<Rightarrow> 'a list" where
  "drop_duplicates [] = []"
| "drop_duplicates (x # xs) = x # drop_duplicates (filter (\<lambda>y. y \<noteq> x) xs)"

text \<open>\<open>na.drop()\<close> / \<open>dropna()\<close> on a single column: keep the values that are not null.\<close>

definition na_drop :: "'a option list \<Rightarrow> 'a list" where
  "na_drop xs = List.map_filter id xs"

section \<open>Entity dimension of the business-owner pipeline: subcategory\<close>

text \<open>
  \<open>business_base_info\<close>: the category string is split on \<open>,\s*\<close>; the subcategory is
  element 1 of the array when the array has more than one element and that element is
  neither empty nor the text \<open>null\<close>, and null otherwise. A null category string gives a
  null array, whose size is not greater than 1.
\<close>

definition category_array :: "business \<Rightarrow> string list option" where
  "category_array b = map_option split_comma_ws (b_categories b)"

definition subcategory :: "business \<Rightarrow> string option" where
  "subcategory b =
     (case category_array b of
        None \<Rightarrow> None
      | Some arr \<Rightarrow>
          if length arr > 1 \<and> arr ! 1 \<noteq> '''' \<and> arr ! 1 \<noteq> ''null''
          then Some (arr ! 1) else None)"

section \<open>Relational primitives of the execution substrate\<close>

text \<open>
  SQL equality in a join condition: a null on either side never matches. Grouping,
  \<open>distinct\<close> and window partitioning instead put nulls together, which is the plain
  equality of \<open>option\<close> values.
\<close>

definition sql_eq :: "'a option \<Rightarrow> 'a option \<Rightarrow> bool" where
  "sql_eq a b \<longleftrightarrow> a \<noteq> None \<and> a = b"

definition left_join :: "('l \<Rightarrow> 'r \<Rightarrow> bool) \<Rightarrow> 'l list \<Rightarrow> 'r list \<Rightarrow> ('l \<times> 'r option) list" where
  "left_join on L R =
     concat (map (\<lambda>l. case filter (on l) R of
                         [] \<Rightarrow> [(l, None)]
                       | m # ms \<Rightarrow> map (\<lambda>x. (l, Some x)) (m # ms)) L)"

definition inner_join :: "('l \<Rightarrow> 'r \<Rightarrow> bool) \<Rightarrow> 'l list \<Rightarrow> 'r list \<Rightarrow> ('l \<times> 'r) list" where
  "inner_join on L R = concat (map (\<lambda>l. map (Pair l) (filter (on l) R)) L)"

text \<open>\<open>F.count(col)\<close> counts the non-null values of a column; \<open>F.count("*")\<close> counts rows.\<close>

definition count_col :: "'a option list \<Rightarrow> int" where
  "count_col xs = int (length (na_drop xs))"

definition count_star :: "'a list \<Rightarrow> int" where
  "count_star xs = int (length xs)"

text \<open>\<open>F.avg\<close> skips nulls and is null when no value is left.\<close>

definition avg :: "rat option list \<Rightarrow> rat option" where
  "avg xs = (case na_drop xs of
               [] \<Rightarrow> None
             | v # vs \<Rightarrow> Some (sum_list (v # vs) / of_nat (length (v # vs))))"

text \<open>\<open>F.coalesce(col, F.lit(0))\<close> and \<open>na.fill(0)\<close> on one numeric value.\<close>

definition fill_0 :: "'a::zero option \<Rightarrow> 'a" where
  "fill_0 x = (case x of None \<Rightarrow> 0 | Some v \<Rightarrow> v)"

text \<open>
  \<open>cast(DecimalType(3, 1))\<close>: round half up to one decimal; null when the result needs
  more than three digits.
\<close>

definition cast_decimal_3_1 :: "rat \<Rightarrow> rat option" where
  "cast_decimal_3_1 x =
     (let u = (if 0 \<le> x then \<lfloor>x * 10 + 1 / 2\<rfloor> else - \<lfloor>- x * 10 + 1 / 2\<rfloor>)
      in if \<bar>u\<bar> < 1000 then Some (of_int u / 10) else None)"

text \<open>Decimal digits of a number, and zero padding to a minimal width (\<open>%04d\<close>, \<open>yyyy\<close>).\<close>

definition digit_char :: "nat \<Rightarrow> char" where
  "digit_char n = char_of (48 + n)"

fun digits :: "nat \<Rightarrow> string" where
  "digits n = (if n < 10 then [digit_char n] else digits (n div 10) @ [digit_char (n mod 10)])"

declare digits.simps [simp del]

definition zero_pad :: "nat \<Rightarrow> nat \<Rightarrow> string" where
  "zero_pad w n = replicate (w - length (digits n)) (CHR ''0'') @ digits n"

section \<open>Date dimension of the business-owner pipeline\<close>

text \<open>
  \<open>F.to_date\<close> on a string column is the substrate's parser. It is a parameter
  \<open>to_date\<close> of the model: \<open>None\<close> is the null that Spark returns for a string it
  cannot read as a date. A null string stays null.
\<close>

definition to_date_col :: "(string \<Rightarrow> date option) \<Rightarrow> string option \<Rightarrow> date option" where
  "to_date_col to_date s = Option.bind s to_date"



text \<open>
  \<open>withColumn("date_str", F.explode(F.split(F.col("date"), ", ")))\<close>: one row per piece;
  a null string gives a null array, which explodes to no row.
\<close>

definition checkin_dates_exploded :: "checkin list \<Rightarrow> (checkin \<times> string) list" where
  "checkin_dates_exploded df_checkin =
     concat (map (\<lambda>c. case c_date c of
                         None \<Rightarrow> []
                       | Some s \<Rightarrow> map (Pair c) (split_comma_space s)) df_checkin)"









text \<open>The dates the substrate's date type holds: years 0001 to 9999.\<close>

definition valid_date :: "date \<Rightarrow> bool" where
  "valid_date d \<longleftrightarrow> 1 \<le> year d \<and> year d \<le> 9999 \<and> 1 \<le> month d \<and> month d \<le> 12
                      \<and> 1 \<le> day d \<and> day d \<le> 31"

definition calendar :: "(string \<Rightarrow> date option) \<Rightarrow> bool" where
  "calendar to_date \<longleftrightarrow> (\<forall>s d. to_date s = Some d \<longrightarrow> valid_date d)"

section \<open>Category dimension and bridge of the business-owner pipeline\<close>

definition business_categories_exploded :: "business list \<Rightarrow> (string option \<times> string) list" where
  "business_categories_exploded df_business =
     filter (\<lambda>(business_id, category_name). category_name \<noteq> '''' \<and> category_name \<noteq> ''null'')
       (concat (map (\<lambda>b. case category_array b of
                            None \<Rightarrow> []
                          | Some arr \<Rightarrow> map (Pair (b_business_id b)) arr) df_business))"

text \<open>
  \<open>F.monotonically_increasing_id()\<close> gives the row at each position of the distinct label
  set an id chosen by the substrate; it is the parameter \<open>monotonically_increasing_id\<close>.
  A row of \<open>dim_category\<close> is \<open>(category_id, category_name)\<close>.
\<close>

definition dim_category :: "(nat \<Rightarrow> int) \<Rightarrow> business list \<Rightarrow> (int \<times> string) list" where
  "dim_category monotonically_increasing_id df_business =
     map (\<lambda>(i, category_name). (monotonically_increasing_id i, category_name))
         (enumerate 0 (drop_duplicates (map snd (business_categories_exploded df_business))))"

text \<open>A row of the bridge is \<open>(business_id, category_id)\<close>.\<close>

definition fact_business_categories :: "(nat \<Rightarrow> int) \<Rightarrow> business list \<Rightarrow> (string option \<times> int) list" where
  "fact_business_categories monotonically_increasing_id df_business =
     drop_duplicates
       (map (\<lambda>((business_id, _), (category_id, _)). (business_id, category_id))
            (inner_join (\<lambda>(_, category_name) (_, category_name'). category_name = category_name')
               (business_categories_exploded df_business)
               (dim_category monotonically_increasing_id df_business)))"

section \<open>Entity dimension of the business-owner pipeline\<close>

text \<open>A row of the lifetime aggregate is \<open>(business_id, overall_avg_rating, overall_review_count)\<close>.\<close>

definition business_review_overall_stats :: "review list \<Rightarrow> (string option \<times> rat option \<times> int) list" where
  "business_review_overall_stats df_review =
     map (\<lambda>k. (k, avg (map r_stars (filter (\<lambda>r. r_business_id r = k) df_review)),
                  count_col (map r_review_id (filter (\<lambda>r. r_business_id r = k) df_review))))
         (drop_duplicates (map r_business_id df_review))"

record dim_business_row =
  db_business_id :: "string option"
  db_name :: "string option"
  db_subcategory :: "string option"
  db_is_open :: "bool option"
  db_overall_avg_rating :: "rat option"
  db_overall_review_count :: int

definition dim_business :: "business list \<Rightarrow> review list \<Rightarrow> dim_business_row list" where
  "dim_business df_business df_review =
     drop_duplicates
       (map (\<lambda>(b, stats).
               \<lparr>db_business_id = b_business_id b, db_name = b_name b,
                db_subcategory = subcategory b,
                db_is_open = map_option (\<lambda>i. i = 1) (b_is_open b),
                db_overall_avg_rating =
                  Option.bind (Option.bind stats (\<lambda>(_, a, _). a)) cast_decimal_3_1,
                db_overall_review_count = fill_0 (map_option (\<lambda>(_, _, n). n) stats)\<rparr>)
            (left_join (\<lambda>b (k, _, _). sql_eq (b_business_id b) k) df_business
               (business_review_overall_stats df_review)))"

section \<open>Monthly performance fact table of the business-owner pipeline\<close>

text \<open>
  The grouping key \<open>(business_id, year, month)\<close>. \<open>F.year\<close> and \<open>F.month\<close> of a null
  date are null.
\<close>

type_synonym ym_key = "string option \<times> nat option \<times> nat option"

definition ym_key_of :: "string option \<Rightarrow> date option \<Rightarrow> ym_key" where
  "ym_key_of business_id d = (business_id, map_option year d, map_option month d)"

text \<open>
  \<open>df_review_ym\<close> and \<open>df_tip_ym\<close> keep every record, also one whose date did not parse;
  \<open>df_checkin_ym\<close> drops the exploded pieces whose date is null.
\<close>

definition df_review_ym :: "(string \<Rightarrow> date option) \<Rightarrow> review list \<Rightarrow> (review \<times> date option) list" where
  "df_review_ym to_date df_review = map (\<lambda>r. (r, to_date_col to_date (r_date r))) df_review"

definition df_checkin_ym :: "(string \<Rightarrow> date option) \<Rightarrow> checkin list \<Rightarrow> (string option \<times> date) list" where
  "df_checkin_ym to_date df_checkin =
     List.map_filter (\<lambda>(c, date_str). map_option (Pair (c_business_id c)) (to_date (trim date_str)))
       (checkin_dates_exploded df_checkin)"

definition df_tip_ym :: "(string \<Rightarrow> date option) \<Rightarrow> tip list \<Rightarrow> (tip \<times> date option) list" where
  "df_tip_ym to_date df_tip = map (\<lambda>t. (t, to_date_col to_date (t_date t))) df_tip"

definition review_agg_monthly :: "(string \<Rightarrow> date option) \<Rightarrow> review list \<Rightarrow> (ym_key \<times> int) list" where
  "review_agg_monthly to_date df_review =
     (let rows = df_review_ym to_date df_review;
          key = (\<lambda>(r, d). ym_key_of (r_business_id r) d)
      in map (\<lambda>k. (k, count_col (map (\<lambda>(r, d). r_review_id r) (filter (\<lambda>x. key x = k) rows))))
             (drop_duplicates (map key rows)))"

definition checkin_agg_monthly :: "(string \<Rightarrow> date option) \<Rightarrow> checkin list \<Rightarrow> (ym_key \<times> int) list" where
  "checkin_agg_monthly to_date df_checkin =
     (let rows = df_checkin_ym to_date df_checkin;
          key = (\<lambda>(business_id, d). ym_key_of business_id (Some d))
      in map (\<lambda>k. (k, count_star (filter (\<lambda>x. key x = k) rows)))
             (drop_duplicates (map key rows)))"

definition tip_agg_monthly :: "(string \<Rightarrow> date option) \<Rightarrow> tip list \<Rightarrow> (ym_key \<times> int) list" where
  "tip_agg_monthly to_date df_tip =
     (let rows = df_tip_ym to_date df_tip;
          key = (\<lambda>(t, d). ym_key_of (t_business_id t) d)
      in map (\<lambda>k. (k, count_star (filter (\<lambda>x. key x = k) rows)))
             (drop_duplicates (map key rows)))"

definition base_facts_monthly ::
  "(string \<Rightarrow> date option) \<Rightarrow> review list \<Rightarrow> checkin list \<Rightarrow> tip list \<Rightarrow> ym_key list" where
  "base_facts_monthly to_date df_review df_checkin df_tip =
     drop_duplicates (map fst (review_agg_monthly to_date df_review)
                      @ map fst (checkin_agg_monthly to_date df_checkin)
                      @ map fst (tip_agg_monthly to_date df_tip))"

text \<open>Join on the columns \<open>["business_id", "year", "month"]\<close>.\<close>

definition on_ym :: "ym_key \<Rightarrow> ym_key \<Rightarrow> bool" where
  "on_ym k k' =
     (case (k, k') of ((b, y, m), (b', y', m')) \<Rightarrow> sql_eq b b' \<and> sql_eq y y' \<and> sql_eq m m')"

record fact_row =
  f_business_id :: "string option"
  f_year :: nat
  f_month :: nat
  review_count_monthly :: int
  checkin_count_monthly :: int
  tip_count_monthly :: int

text \<open>
  The three left joins, then \<open>na.fill(0)\<close>, which replaces the nulls of every numeric
  column: the three counts, and also \<open>year\<close> and \<open>month\<close>.
\<close>

definition fact_table_monthly_joined ::
  "(string \<Rightarrow> date option) \<Rightarrow> review list \<Rightarrow> checkin list \<Rightarrow> tip list \<Rightarrow> fact_row list" where
  "fact_table_monthly_joined to_date df_review df_checkin df_tip =
     map (\<lambda>(((k, r), c), t).
            (case k of (business_id, y, m) \<Rightarrow>
               \<lparr>f_business_id = business_id, f_year = fill_0 y, f_month = fill_0 m,
                review_count_monthly = fill_0 (map_option snd r),
                checkin_count_monthly = fill_0 (map_option snd c),
                tip_count_monthly = fill_0 (map_option snd t)\<rparr>))
       (left_join (\<lambda>((k, r), c) (k', n). on_ym k k')
          (left_join (\<lambda>(k, r) (k', n). on_ym k k')
             (left_join (\<lambda>k (k', n). on_ym k k')
                (base_facts_monthly to_date df_review df_checkin df_tip)
                (review_agg_monthly to_date df_review))
             (checkin_agg_monthly to_date df_checkin))
          (tip_agg_monthly to_date df_tip))"

text \<open>
  \<open>Window.partitionBy("business_id").orderBy("year", "month")\<close> and
  \<open>F.lag("review_count_monthly", 1)\<close>: in each partition, in ascending order of
  \<open>(year, month)\<close>, a row gets the review count of the row before it, the first row
  gets null.
\<close>

definition business_window :: "fact_row list \<Rightarrow> string option \<Rightarrow> fact_row list" where
  "business_window tab business_id =
     sort_key (\<lambda>r. (f_year r, f_month r)) (filter (\<lambda>r. f_business_id r = business_id) tab)"

fun lag_review_count :: "int option \<Rightarrow> fact_row list \<Rightarrow> (fact_row \<times> int option) list" where
  "lag_review_count prev [] = []"
| "lag_review_count prev (r # rs) =
     (r, prev) # lag_review_count (Some (review_count_monthly r)) rs"

definition fact_table_with_lag :: "fact_row list \<Rightarrow> (fact_row \<times> int option) list" where
  "fact_table_with_lag tab =
     concat (map (\<lambda>business_id. lag_review_count None (business_window tab business_id))
                 (drop_duplicates (map f_business_id tab)))"

text \<open>
  The growth rate. Spark divides two integers as doubles; the model keeps the exact
  quotient.
\<close>

definition review_growth_rate :: "fact_row \<Rightarrow> int option \<Rightarrow> rat option" where
  "review_growth_rate r prev_month_review_count =
     (case prev_month_review_count of
        None \<Rightarrow> None
      | Some p \<Rightarrow> if p = 0 then None
                  else Some (of_int (review_count_monthly r - p) / of_int p))"

definition fact_table_with_growth :: "fact_row list \<Rightarrow> (fact_row \<times> rat option) list" where
  "fact_table_with_growth tab =
     map (\<lambda>(r, prev). (r, review_growth_rate r prev)) (fact_table_with_lag tab)"

text \<open>
  The engagement score; \<open>photo_count_monthly\<close> is the literal 0. The weights are double
  literals in the source and exact rationals here.
\<close>

definition photo_count_monthly :: int where
  "photo_count_monthly = 0"

definition engagement_score :: "fact_row \<Rightarrow> rat" where
  "engagement_score r =
     of_int (review_count_monthly r) * 1 + of_int (tip_count_monthly r) * (1 / 2)
     + of_int photo_count_monthly * (1 / 4) + of_int (checkin_count_monthly r) * (1 / 5)"

definition fact_table_final_monthly :: "fact_row list \<Rightarrow> (fact_row \<times> rat option \<times> rat) list" where
  "fact_table_final_monthly tab =
     map (\<lambda>(r, growth). (r, growth, engagement_score r)) (fact_table_with_growth tab)"

record performance_row =
  p_business_id :: "string option"
  p_month_id :: string
  p_review_count :: int
  p_checkin_count :: int
  p_tip_count :: int
  p_photo_count :: int
  p_engagement_score :: rat
  p_growth_rate :: "rat option"

definition fact_business_performance ::
  "(string \<Rightarrow> date option) \<Rightarrow> review list \<Rightarrow> checkin list \<Rightarrow> tip list \<Rightarrow> performance_row list" where
  "fact_business_performance to_date df_review df_checkin df_tip =
     map (\<lambda>(r, growth, score).
            \<lparr>p_business_id = f_business_id r,
             p_month_id = zero_pad 4 (f_year r) @ zero_pad 2 (f_month r),
             p_review_count = review_count_monthly r,
             p_checkin_count = checkin_count_monthly r,
             p_tip_count = tip_count_monthly r,
             p_photo_count = photo_count_monthly,
             p_engagement_score = score,
             p_growth_rate = growth\<rparr>)
       (fact_table_final_monthly
          (fact_table_monthly_joined to_date df_review df_checkin df_tip))"

section \<open>The investor pipeline (pandas)\<close>

text \<open>
  \<open>investorsETL.py\<close> builds its tables with pandas. A missing value (\<open>None\<close>, \<open>NaN\<close>,
  \<open>NaT\<close>) is \<open>None\<close>; unlike a Spark column function, a pandas call can raise, and a
  builder that can raise returns \<open>error + table\<close>.
\<close>

datatype error = DateParseError | InvalidIndexError

text \<open>
  \<open>pd.to_datetime(col)\<close> raises for a string that it cannot read and leaves a missing
  value missing; with \<open>errors='coerce'\<close> it gives \<open>NaT\<close> instead of raising. The parser
  itself is the parameter \<open>to_datetime\<close>; \<open>.dt.date\<close> is the calendar date.
\<close>

definition to_datetime_raise ::
  "(string \<Rightarrow> date option) \<Rightarrow> string option list \<Rightarrow> error + date option list" where
  "to_datetime_raise to_datetime col =
     (if list_ex (\<lambda>x. case x of None \<Rightarrow> False | Some s \<Rightarrow> to_datetime s = None) col
      then Inl DateParseError
      else Inr (map (\<lambda>x. Option.bind x to_datetime) col))"

definition to_datetime_coerce ::
  "(string \<Rightarrow> date option) \<Rightarrow> string option list \<Rightarrow> date option list" where
  "to_datetime_coerce to_datetime col = map (\<lambda>x. Option.bind x to_datetime) col"

text \<open>
  \<open>values.map(mapper)\<close> with a Series as mapper looks every value up in the index of the
  mapper; it raises when that index has a duplicate, and gives a missing value for a
  value that is not in the index.
\<close>

definition series_map :: "('k \<times> 'v) list \<Rightarrow> 'k list \<Rightarrow> error + 'v option list" where
  "series_map mapper vals =
     (if distinct (map fst mapper) then Inr (map (map_of mapper) vals)
      else Inl InvalidIndexError)"

text \<open>\<open>fillna('')\<close> on one value.\<close>

definition fillna_empty :: "string option \<Rightarrow> string" where
  "fillna_empty x = (case x of None \<Rightarrow> '''' | Some s \<Rightarrow> s)"

subsection \<open>Dimensions\<close>

type_synonym location = "string option \<times> string option \<times> string option \<times> rat option \<times> rat option"

definition location_of :: "business \<Rightarrow> location" where
  "location_of b = (b_city b, b_state b, b_postal_code b, b_latitude b, b_longitude b)"

text \<open>A row of \<open>Dim_Location\<close> is \<open>(location_key, city, state, postal_code, latitude, longitude)\<close>.\<close>

definition create_dim_location :: "business list \<Rightarrow> (int \<times> location) list" where
  "create_dim_location df_business =
     map (\<lambda>(i, l). (int i, l)) (enumerate 1 (drop_duplicates (map location_of df_business)))"

text \<open>
  \<open>create_dim_category\<close> assigns \<open>df_business['categories'].fillna('')\<close> to the column of
  the frame it was given, so it returns the frame as it leaves it together with the
  dimension. A row of \<open>Dim_Category\<close> is \<open>(category_key, category_name)\<close>.
\<close>

definition create_dim_category :: "business list \<Rightarrow> (int \<times> string) list \<times> business list" where
  "create_dim_category df_business =
     (let df_business' =
            map (\<lambda>b. b\<lparr>b_categories := Some (fillna_empty (b_categories b))\<rparr>) df_business;
          all_categories =
            concat (map (\<lambda>b. case b_categories b of
                                 None \<Rightarrow> []
                               | Some s \<Rightarrow> split_comma_space s) df_business');
          unique_categories = drop_duplicates (filter (\<lambda>c. c \<noteq> '''') all_categories)
      in (map (\<lambda>(i, c). (int i, c)) (enumerate 1 unique_categories), df_business'))"

text \<open>
  \<open>df_checkin['date'].str.split(', ').explode()\<close>: one row per piece, and one row with a
  missing value for a missing string.
\<close>

definition explode_dates :: "checkin list \<Rightarrow> (checkin \<times> string option) list" where
  "explode_dates df_checkin =
     concat (map (\<lambda>c. case c_date c of
                         None \<Rightarrow> [(c, None)]
                       | Some s \<Rightarrow> map (\<lambda>piece. (c, Some piece)) (split_comma_space s))
                 df_checkin)"

record pd_date_row =
  pdd_date_key :: int
  pdd_full_date :: date
  pdd_year :: nat
  pdd_month :: nat
  pdd_day :: nat
  pdd_day_of_week :: nat
  pdd_day_name :: string
  pdd_month_name :: string
  pdd_quarter :: nat
  pdd_is_weekend :: bool

text \<open>\<open>strftime('%A')\<close> and \<open>strftime('%B')\<close> for a day of the week 0 to 6 and a month 1 to 12.\<close>

definition day_name :: "nat \<Rightarrow> string" where
  "day_name day_of_week =
     (if day_of_week < 7
      then [''Monday'', ''Tuesday'', ''Wednesday'', ''Thursday'', ''Friday'', ''Saturday'',
            ''Sunday''] ! day_of_week
      else '''')"

definition month_name :: "nat \<Rightarrow> string" where
  "month_name m =
     (if 1 \<le> m \<and> m \<le> 12
      then [''January'', ''February'', ''March'', ''April'', ''May'', ''June'', ''July'',
            ''August'', ''September'', ''October'', ''November'', ''December''] ! (m - 1)
      else '''')"

text \<open>
  \<open>create_dim_date\<close>: the review dates are parsed without \<open>errors='coerce'\<close>, the
  check-in pieces with it. \<open>dt.dayofweek\<close> (Monday = 0) is the parameter \<open>dayofweek\<close>.
  The key is \<open>int(d.strftime('%Y%m%d'))\<close>.
\<close>

definition create_dim_date ::
  "(string \<Rightarrow> date option) \<Rightarrow> (date \<Rightarrow> nat) \<Rightarrow> review list \<Rightarrow> checkin list
   \<Rightarrow> error + pd_date_row list" where
  "create_dim_date to_datetime dayofweek df_review df_checkin =
     (case to_datetime_raise to_datetime (map r_date df_review) of
        Inl e \<Rightarrow> Inl e
      | Inr review_dates' \<Rightarrow>
          (let checkin_dates' = to_datetime_coerce to_datetime (map snd (explode_dates df_checkin));
               all_dates' = drop_duplicates (na_drop (review_dates' @ checkin_dates'))
           in Inr (map (\<lambda>d. \<lparr>pdd_date_key = int (year d) * 10000 + int (month d) * 100 + int (day d),
                              pdd_full_date = d, pdd_year = year d, pdd_month = month d,
                              pdd_day = day d, pdd_day_of_week = dayofweek d,
                              pdd_day_name = day_name (dayofweek d),
                              pdd_month_name = month_name (month d),
                              pdd_quarter = (month d - 1) div 3 + 1,
                              pdd_is_weekend = (dayofweek d \<in> set [5, 6])\<rparr>)
                       (sort_key (\<lambda>d. (year d, month d, day d)) all_dates'))))"

record pd_business_row =
  pb_business_key :: int
  pb_business_nk :: "string option"
  pb_name :: "string option"
  pb_address :: "string option"
  pb_location_key :: "int option"
  pb_stars :: "rat option"
  pb_review_count :: "int option"
  pb_is_open :: "int option"

text \<open>
  \<open>create_dim_business\<close>: a left merge with \<open>Dim_Location\<close> on the five location columns
  (pandas matches a missing value with a missing value in a merge key), then the
  surrogate key by position. \<open>stars\<close> and \<open>review_count\<close> are the columns of the source.
\<close>

definition create_dim_business :: "business list \<Rightarrow> (int \<times> location) list \<Rightarrow> pd_business_row list" where
  "create_dim_business df_business df_location =
     map (\<lambda>(i, (b, loc)).
            \<lparr>pb_business_key = int i, pb_business_nk = b_business_id b, pb_name = b_name b,
             pb_address = b_address b, pb_location_key = map_option fst loc,
             pb_stars = b_stars b, pb_review_count = b_review_count b,
             pb_is_open = b_is_open b\<rparr>)
         (enumerate 1 (left_join (\<lambda>b (location_key, l). l = location_of b) df_business df_location))"

subsection \<open>Facts\<close>

text \<open>A row of the bridge is \<open>(business_key, category_key)\<close>.\<close>

definition create_fact_business_categories ::
  "business list \<Rightarrow> (int \<times> string) list \<Rightarrow> pd_business_row list \<Rightarrow> error + (int \<times> int) list" where
  "create_fact_business_categories df_business df_category df_dim_business =
     (let business_key_map = map (\<lambda>r. (pb_business_nk r, pb_business_key r)) df_dim_business;
          category_key_map = map (\<lambda>(category_key, category_name). (category_name, category_key))
                                 df_category;
          df_exploded =
            filter (\<lambda>(business_id, c). c \<noteq> '''')
              (concat (map (\<lambda>b. map (Pair (b_business_id b))
                                     (split_comma_space (fillna_empty (b_categories b))))
                           df_business))
      in case series_map business_key_map (map fst df_exploded) of
           Inl e \<Rightarrow> Inl e
         | Inr business_keys \<Rightarrow>
             (case series_map category_key_map (map snd df_exploded) of
                Inl e \<Rightarrow> Inl e
              | Inr category_keys \<Rightarrow>
                  Inr (drop_duplicates
                         (List.map_filter
                            (\<lambda>(bk, ck). case bk of
                                            None \<Rightarrow> None
                                          | Some b \<Rightarrow> map_option (Pair b) ck)
                            (zip business_keys category_keys)))))"

record pd_performance_row =
  pf_performance_key :: int
  pf_business_key :: int
  pf_date_key :: int
  pf_review_count :: int
  pf_average_stars :: rat
  pf_checkin_count :: int

text \<open>Rows whose two keys were both found, with the keys (\<open>dropna\<close> on the two key columns).\<close>

definition keyed_rows :: "'a list \<Rightarrow> int option list \<Rightarrow> int option list \<Rightarrow> ('a \<times> int \<times> int) list" where
  "keyed_rows rows business_keys date_keys =
     List.map_filter
       (\<lambda>(x, bk, dk). case bk of
                         None \<Rightarrow> None
                       | Some b \<Rightarrow> map_option (\<lambda>d. (x, b, d)) dk)
       (zip rows (zip business_keys date_keys))"

text \<open>
  The two daily aggregates and their outer merge. \<open>groupby\<close> sorts its keys, \<open>'count'\<close>
  counts the values of a column that are not missing, \<open>'mean'\<close> skips missing values; the
  outer merge has the sorted union of the keys of both aggregates, and \<open>fillna(0)\<close>
  fills what one side lacks.
\<close>

definition review_agg :: "(review \<times> int \<times> int) list \<Rightarrow> ((int \<times> int) \<times> int \<times> rat option) list" where
  "review_agg df_rev =
     map (\<lambda>k. (k, count_col (map (\<lambda>(r, _). r_review_id r) (filter (\<lambda>(r, k'). k' = k) df_rev)),
                  avg (map (\<lambda>(r, _). r_stars r) (filter (\<lambda>(r, k'). k' = k) df_rev))))
         (sort (drop_duplicates (map snd df_rev)))"

definition checkin_agg :: "((checkin \<times> date) \<times> int \<times> int) list \<Rightarrow> ((int \<times> int) \<times> int) list" where
  "checkin_agg df_chk =
     map (\<lambda>k. (k, count_col (map (\<lambda>((c, d), _). c_business_id c)
                                 (filter (\<lambda>(x, k'). k' = k) df_chk))))
         (sort (drop_duplicates (map snd df_chk)))"

definition df_fact_perf ::
  "((int \<times> int) \<times> int \<times> rat option) list \<Rightarrow> ((int \<times> int) \<times> int) list
   \<Rightarrow> pd_performance_row list" where
  "df_fact_perf reviews checkins =
     map (\<lambda>(i, k).
            \<lparr>pf_performance_key = int i, pf_business_key = fst k, pf_date_key = snd k,
             pf_review_count = fill_0 (map_option fst (map_of reviews k)),
             pf_average_stars = fill_0 (Option.bind (map_of reviews k) snd),
             pf_checkin_count = fill_0 (map_of checkins k)\<rparr>)
         (enumerate 1 (sort (drop_duplicates (map fst reviews @ map fst checkins))))"

text \<open>
  \<open>create_fact_business_performance\<close>: the review dates are parsed without
  \<open>errors='coerce'\<close>, the check-in pieces with it; a row whose business or date is not
  in its dimension is dropped.
\<close>

definition create_fact_business_performance ::
  "(string \<Rightarrow> date option) \<Rightarrow> review list \<Rightarrow> checkin list \<Rightarrow> pd_business_row list
   \<Rightarrow> pd_date_row list \<Rightarrow> error + pd_performance_row list" where
  "create_fact_business_performance to_datetime df_review df_checkin df_dim_business df_dim_date =
     (let business_key_map = map (\<lambda>r. (pb_business_nk r, pb_business_key r)) df_dim_business;
          date_key_map = map (\<lambda>r. (Some (pdd_full_date r), pdd_date_key r)) df_dim_date;
          df_chk_exploded =
            List.map_filter (\<lambda>(c, d). map_option (Pair c) d)
              (zip (map fst (explode_dates df_checkin))
                   (to_datetime_coerce to_datetime (map snd (explode_dates df_checkin))))
      in case to_datetime_raise to_datetime (map r_date df_review) of
           Inl e \<Rightarrow> Inl e
         | Inr rev_dates \<Rightarrow>
        (case series_map business_key_map (map r_business_id df_review) of
           Inl e \<Rightarrow> Inl e
         | Inr rev_business_keys \<Rightarrow>
        (case series_map date_key_map rev_dates of
           Inl e \<Rightarrow> Inl e
         | Inr rev_date_keys \<Rightarrow>
        (case series_map business_key_map (map (\<lambda>(c, d). c_business_id c) df_chk_exploded) of
           Inl e \<Rightarrow> Inl e
         | Inr chk_business_keys \<Rightarrow>
        (case series_map date_key_map (map (\<lambda>(c, d). Some d) df_chk_exploded) of
           Inl e \<Rightarrow> Inl e
         | Inr chk_date_keys \<Rightarrow>
             Inr (df_fact_perf
                    (review_agg (keyed_rows df_review rev_business_keys rev_date_keys))
                    (checkin_agg (keyed_rows df_chk_exploded chk_business_keys chk_date_keys))))))))"

subsection \<open>The run\<close>

record star_schema =
  out_dim_location :: "(int \<times> location) list"
  out_dim_category :: "(int \<times> string) list"
  out_dim_date :: "pd_date_row list"
  out_dim_business :: "pd_business_row list"
  out_fact_business_categories :: "(int \<times> int) list"
  out_fact_business_performance :: "pd_performance_row list"
  out_df_business :: "business list"

text \<open>
  The \<open>__main__\<close> block, for three loaded frames. The frame \<open>df_business_raw\<close> is one
  object: after \<open>create_dim_category\<close> the later builders are called on the frame as
  that call left it. \<open>out_df_business\<close> is the frame at the end of the run.
\<close>

definition main ::
  "(string \<Rightarrow> date option) \<Rightarrow> (date \<Rightarrow> nat) \<Rightarrow> business list \<Rightarrow> review list \<Rightarrow> checkin list
   \<Rightarrow> error + star_schema" where
  "main to_datetime dayofweek df_business_raw df_review_raw df_checkin_raw =
     (let dim_location' = create_dim_location df_business_raw;
          (dim_category', df_business_raw) = create_dim_category df_business_raw
      in case create_dim_date to_datetime dayofweek df_review_raw df_checkin_raw of
           Inl e \<Rightarrow> Inl e
         | Inr dim_date' \<Rightarrow>
         (let dim_business' = create_dim_business df_business_raw dim_location'
          in case create_fact_business_categories df_business_raw dim_category' dim_business' of
               Inl e \<Rightarrow> Inl e
             | Inr fact_business_categories' \<Rightarrow>
             (case create_fact_business_performance to_datetime df_review_raw df_checkin_raw
                     dim_business' dim_date' of
                Inl e \<Rightarrow> Inl e
              | Inr fact_business_performance' \<Rightarrow>
                  Inr \<lparr>out_dim_location = dim_location', out_dim_category = dim_category',
                       out_dim_date = dim_date', out_dim_business = dim_business',
                       out_fact_business_categories = fact_business_categories',
                       out_fact_business_performance = fact_business_performance',
                       out_df_business = df_business_raw\<rparr>)))"

section \<open>The marketing pipeline: category bridge\<close>

text \<open>
  \<open>marketingETL.py\<close>: \<open>DimBusiness\<close> keeps the category string split on \<open>,\s*\<close> as an
  array, and \<open>BusinessCategoryBridge\<close> is the explode of that array without the empty
  strings. A row is \<open>(business_id, category)\<close>.
\<close>

definition bridge_business_category :: "business list \<Rightarrow> (string option \<times> string) list" where
  "bridge_business_category business_df =
     filter (\<lambda>(business_id, category). category \<noteq> '''')
       (concat (map (\<lambda>b. case category_array b of
                            None \<Rightarrow> []
                          | Some arr \<Rightarrow> map (Pair (b_business_id b)) arr) business_df))"

section \<open>Notions used to state the properties\<close>

text \<open>A category label that counts as one: not empty and not the text \<open>null\<close>.\<close>

definition is_category :: "string \<Rightarrow> bool" where
  "is_category c \<longleftrightarrow> c \<noteq> '''' \<and> c \<noteq> ''null''"

text \<open>
  The pieces of a check-in string, said without the splitting function: a non-empty list
  of strings, none of which contains the delimiter (a comma followed by a space), that
  gives the string back when its members are put together with the delimiter between
  them.
\<close>

fun join_comma_space :: "string list \<Rightarrow> string" where
  "join_comma_space [] = []"
| "join_comma_space [p] = p"
| "join_comma_space (p # q # qs) = p @ '', '' @ join_comma_space (q # qs)"

definition has_comma_space :: "string \<Rightarrow> bool" where
  "has_comma_space p \<longleftrightarrow> (\<exists>a b. p = a @ '', '' @ b)"








text \<open>
  The events of one entity in one month: the reviews and the tips whose date parses into
  the month, and the exploded check-in pieces whose trimmed text parses into the month.
  The month is given as a grouping key \<open>(Some business_id, Some year, Some month)\<close>.
\<close>

definition reviews_of_key :: "(string \<Rightarrow> date option) \<Rightarrow> review list \<Rightarrow> ym_key \<Rightarrow> review list" where
  "reviews_of_key to_date df_review k =
     filter (\<lambda>r. ym_key_of (r_business_id r) (to_date_col to_date (r_date r)) = k) df_review"

definition tips_of_key :: "(string \<Rightarrow> date option) \<Rightarrow> tip list \<Rightarrow> ym_key \<Rightarrow> tip list" where
  "tips_of_key to_date df_tip k =
     filter (\<lambda>t. ym_key_of (t_business_id t) (to_date_col to_date (t_date t)) = k) df_tip"

definition checkins_of_key :: "(string \<Rightarrow> date option) \<Rightarrow> checkin list \<Rightarrow> ym_key \<Rightarrow> (checkin \<times> string) list" where
  "checkins_of_key to_date df_checkin k =
     filter (\<lambda>(c, piece). case to_date (trim piece) of
                              None \<Rightarrow> False
                            | Some d \<Rightarrow> ym_key_of (c_business_id c) (Some d) = k)
       (checkin_dates_exploded df_checkin)"

text \<open>A grouping key without a null: only such a key finds its partner in a join.\<close>

definition key_not_null :: "ym_key \<Rightarrow> bool" where
  "key_not_null k \<longleftrightarrow> fst k \<noteq> None \<and> fst (snd k) \<noteq> None \<and> snd (snd k) \<noteq> None"

text \<open>
  The fact row of a grouping key, written with the event lists: the counts of the key
  when the key has no null, and 0 otherwise; null year and month filled with 0.
\<close>

definition fact_row_of ::
  "(string \<Rightarrow> date option) \<Rightarrow> review list \<Rightarrow> checkin list \<Rightarrow> tip list \<Rightarrow> ym_key \<Rightarrow> fact_row" where
  "fact_row_of to_date df_review df_checkin df_tip k =
     \<lparr>f_business_id = fst k, f_year = fill_0 (fst (snd k)), f_month = fill_0 (snd (snd k)),
      review_count_monthly =
        (if key_not_null k
         then int (length (filter (\<lambda>r. r_review_id r \<noteq> None) (reviews_of_key to_date df_review k)))
         else 0),
      checkin_count_monthly =
        (if key_not_null k then int (length (checkins_of_key to_date df_checkin k)) else 0),
      tip_count_monthly =
        (if key_not_null k then int (length (tips_of_key to_date df_tip k)) else 0)\<rparr>"


text \<open>
  The rows of one entity in the order of \<open>(year, month)\<close>: a row is the first one of its
  entity when no row of the entity is earlier; \<open>p\<close> is the row before \<open>r\<close> when it is an
  earlier row of the same entity and no row of the entity lies between them.
\<close>

definition first_row :: "fact_row list \<Rightarrow> fact_row \<Rightarrow> bool" where
  "first_row tab r \<longleftrightarrow>
     (\<forall>p \<in> set tab. f_business_id p = f_business_id r
        \<longrightarrow> \<not> (f_year p, f_month p) < (f_year r, f_month r))"

definition previous_row :: "fact_row list \<Rightarrow> fact_row \<Rightarrow> fact_row \<Rightarrow> bool" where
  "previous_row tab p r \<longleftrightarrow>
     p \<in> set tab \<and> f_business_id p = f_business_id r
     \<and> (f_year p, f_month p) < (f_year r, f_month r)
     \<and> (\<forall>q \<in> set tab. f_business_id q = f_business_id r
           \<longrightarrow> \<not> ((f_year p, f_month p) < (f_year q, f_month q)
                  \<and> (f_year q, f_month q) < (f_year r, f_month r)))"

text \<open>Lower case of the ASCII letters, to compare labels up to case.\<close>

definition lower_case :: "string \<Rightarrow> string" where
  "lower_case s =
     map (\<lambda>c. if 65 \<le> (of_char c :: nat) \<and> (of_char c :: nat) \<le> 90
              then char_of (of_char c + 32 :: nat) else c) s"

section \<open>Sample inputs\<close>

text \<open>
  A parser and a day-of-week function for the sample inputs: they know the four
  timestamps that the samples use, and the parser reads nothing else.
\<close>

definition sample_to_date :: "string \<Rightarrow> date option" where
  "sample_to_date s =
     map_of [(''2018-01-05 10:00:00'', Date 2018 1 5),
             (''2018-01-20 09:30:00'', Date 2018 1 20),
             (''2018-02-03 12:00:00'', Date 2018 2 3),
             (''2018-03-07 18:45:00'', Date 2018 3 7)] s"


definition mk_business :: "string option \<Rightarrow> string option \<Rightarrow> business" where
  "mk_business business_id categories =
     \<lparr>b_business_id = business_id, b_name = Some ''Cafe'', b_address = None, b_city = None,
      b_state = None, b_postal_code = None, b_latitude = None, b_longitude = None,
      b_stars = None, b_review_count = None, b_is_open = Some 1, b_categories = categories\<rparr>"

definition mk_review :: "string option \<Rightarrow> string option \<Rightarrow> string option \<Rightarrow> review" where
  "mk_review review_id business_id d =
     \<lparr>r_review_id = review_id, r_user_id = Some ''u1'', r_business_id = business_id,
      r_stars = Some 4, r_date = d\<rparr>"

definition mk_tip :: "string option \<Rightarrow> string option \<Rightarrow> tip" where
  "mk_tip business_id d = \<lparr>t_user_id = Some ''u1'', t_business_id = business_id, t_date = d\<rparr>"

definition mk_checkin :: "string option \<Rightarrow> string option \<Rightarrow> checkin" where
  "mk_checkin business_id d = \<lparr>c_business_id = business_id, c_date = d\<rparr>"

text \<open>
  One business with four reviews, two tips and five readable check-ins (and one unreadable
  piece) in January 2018.
\<close>

definition sample_reviews :: "review list" where
  "sample_reviews =
    [mk_review (Some ''r1'') (Some ''b1'') (Some ''2018-01-05 10:00:00''),
     mk_review (Some ''r2'') (Some ''b1'') (Some ''2018-01-05 10:00:00''),
     mk_review (Some ''r3'') (Some ''b1'') (Some ''2018-01-20 09:30:00''),
     mk_review (Some ''r4'') (Some ''b1'') (Some ''2018-01-20 09:30:00'')]"

definition sample_tips :: "tip list" where
  "sample_tips =
    [mk_tip (Some ''b1'') (Some ''2018-01-05 10:00:00''),
     mk_tip (Some ''b1'') (Some ''2018-01-20 09:30:00'')]"

definition sample_checkins :: "checkin list" where
  "sample_checkins =
    [mk_checkin (Some ''b1'')
       (Some ''2018-01-05 10:00:00, 2018-01-20 09:30:00, 2018-01-05 10:00:00, bad, 2018-01-20 09:30:00, 2018-01-05 10:00:00'')]"

definition sample_businesses :: "business list" where
  "sample_businesses =
    [mk_business (Some ''b1'') (Some ''Food, Bars, Food''),
     mk_business (Some ''b2'') None]"

text \<open>A review record that carries no \<open>review_id\<close>.\<close>

definition sample_reviews_without_id :: "review list" where
  "sample_reviews_without_id = [mk_review None (Some ''b1'') (Some ''2018-01-05 10:00:00'')]"

text \<open>
  One business with a check-in and no review in January 2018, two reviews in February
  and three reviews in March.
\<close>

definition sample_growth_reviews :: "review list" where
  "sample_growth_reviews =
    [mk_review (Some ''r1'') (Some ''b1'') (Some ''2018-02-03 12:00:00''),
     mk_review (Some ''r2'') (Some ''b1'') (Some ''2018-02-03 12:00:00''),
     mk_review (Some ''r3'') (Some ''b1'') (Some ''2018-03-07 18:45:00''),
     mk_review (Some ''r4'') (Some ''b1'') (Some ''2018-03-07 18:45:00''),
     mk_review (Some ''r5'') (Some ''b1'') (Some ''2018-03-07 18:45:00'')]"

definition sample_growth_checkins :: "checkin list" where
  "sample_growth_checkins = [mk_checkin (Some ''b1'') (Some ''2018-01-05 10:00:00'')]"

definition sample_fact_row :: "nat \<Rightarrow> nat \<Rightarrow> int \<Rightarrow> int \<Rightarrow> int \<Rightarrow> fact_row" where
  "sample_fact_row y m reviews checkins tips =
     \<lparr>f_business_id = Some ''b1'', f_year = y, f_month = m, review_count_monthly = reviews,
      checkin_count_monthly = checkins, tip_count_monthly = tips\<rparr>"

text \<open>
  The day of the week of the sample dates in the numbering of pandas (Monday = 0), a
  business whose source record carries a review count, a review whose date is not a
  timestamp, and a check-in string with one piece that is not a timestamp.
\<close>

definition sample_dt_dayofweek :: "date \<Rightarrow> nat" where
  "sample_dt_dayofweek d =
     (case map_of [(Date 2018 1 5, 4), (Date 2018 1 20, 5), (Date 2018 2 3, 5),
                   (Date 2018 3 7, 2)] d of
        None \<Rightarrow> 0
      | Some n \<Rightarrow> n)"

definition sample_listed_business :: business where
  "sample_listed_business = (mk_business (Some ''b3'') (Some ''Food''))\<lparr>b_review_count := Some 7\<rparr>"

definition sample_bad_review :: review where
  "sample_bad_review = mk_review (Some ''r9'') (Some ''b1'') (Some ''not a date'')"

definition sample_bad_checkin :: checkin where
  "sample_bad_checkin = mk_checkin (Some ''b1'') (Some ''not a date, 2018-01-05 10:00:00'')"

section \<open>Facts about the primitives\<close>

lemma set_drop_duplicates [simp]: "set (drop_duplicates xs) = set xs"
  by (induction xs rule: drop_duplicates.induct) auto

lemma distinct_drop_duplicates [simp]: "distinct (drop_duplicates xs)"
  by (induction xs rule: drop_duplicates.induct) auto



lemma count_col_map: "count_col (map f xs) = int (length (filter (\<lambda>x. f x \<noteq> None) xs))"
  by (induction xs)
    (auto simp: count_col_def na_drop_def List.map_filter_simps split: option.splits)

lemma sql_eq_Some: "sql_eq a b \<longleftrightarrow> (\<exists>x. a = Some x \<and> b = Some x)"
  by (cases a) (auto simp: sql_eq_def)

lemma set_left_join_row:
  "set (case filter (on l) R of [] \<Rightarrow> [(l, None)] | m # ms \<Rightarrow> map (\<lambda>x. (l, Some x)) (m # ms))
     = {(l, None) | l'. l' = l \<and> (\<forall>r \<in> set R. \<not> on l r)}
       \<union> {(l, Some r) | r. r \<in> set R \<and> on l r}"
proof (cases "filter (on l) R")
  case Nil
  then have "\<forall>r \<in> set R. \<not> on l r" by (simp add: filter_empty_conv)
  with Nil show ?thesis by auto
next
  case (Cons m ms)
  have eq: "set (m # ms) = {r \<in> set R. on l r}"
    unfolding Cons [symmetric] by simp
  then have "m \<in> set R" "on l m" by auto
  then have "\<not> (\<forall>r \<in> set R. \<not> on l r)" by blast
  then show ?thesis
    unfolding Cons list.case set_map eq by auto
qed

lemma set_left_join:
  "set (left_join on L R) =
     {(l, None) | l. l \<in> set L \<and> (\<forall>r \<in> set R. \<not> on l r)}
     \<union> {(l, Some r) | l r. l \<in> set L \<and> r \<in> set R \<and> on l r}"
  unfolding left_join_def set_concat set_map image_image set_left_join_row by auto

lemma left_join_total: "l \<in> set L \<Longrightarrow> \<exists>x. (l, x) \<in> set (left_join on L R)"
  unfolding set_left_join by (cases "\<forall>r\<in>set R. \<not> on l r") auto

lemma left_join_fst: "(l, x) \<in> set (left_join on L R) \<Longrightarrow> l \<in> set L"
  unfolding set_left_join by auto

lemma set_inner_join: "set (inner_join on L R) = {(l, r). l \<in> set L \<and> r \<in> set R \<and> on l r}"
  by (auto simp: inner_join_def)

lemma map_snd_enumerate: "map snd (enumerate n xs) = xs"
  by (induction xs arbitrary: n) auto



subsection \<open>Decimal formatting\<close>









subsection \<open>Splitting and trimming\<close>


lemma has_comma_space_short [simp]: "\<not> has_comma_space []" "\<not> has_comma_space [c]"
  unfolding has_comma_space_def by (auto simp: append_eq_Cons_conv)






lemma join_Cons_Cons:
  "ps \<noteq> [] \<Longrightarrow> join_comma_space ((c # p) # tl ps) = c # join_comma_space (p # tl ps)"
  by (cases ps; cases "tl ps") simp_all










section \<open>Facts about the business-owner pipeline\<close>

subsection \<open>Date dimension\<close>

lemma to_date_col_Some:
  "to_date_col to_date x = Some d \<longleftrightarrow> (\<exists>s. x = Some s \<and> to_date s = Some d)"
  by (cases x) (simp_all add: to_date_col_def)









lemma calendar_sample_to_date: "calendar sample_to_date"
  by (auto simp: calendar_def sample_to_date_def valid_date_def split: if_splits)

subsection \<open>Category dimension and bridge\<close>

lemma exploded_mem:
  "(bid, c) \<in> set (business_categories_exploded B) \<longleftrightarrow>
     c \<noteq> '''' \<and> c \<noteq> ''null''
     \<and> (\<exists>b \<in> set B. bid = b_business_id b
          \<and> (\<exists>s. b_categories b = Some s \<and> c \<in> set (split_comma_ws s)))"
proof -
  have *: "set (case category_array b of None \<Rightarrow> [] | Some arr \<Rightarrow> map (Pair (b_business_id b)) arr)
      = {(b_business_id b, c) | c s. b_categories b = Some s \<and> c \<in> set (split_comma_ws s)}" for b
    by (cases "b_categories b") (auto simp: category_array_def)
  show ?thesis
    unfolding business_categories_exploded_def set_filter set_concat set_map image_image *
    by auto
qed

lemma dim_category_names:
  "map snd (dim_category mid B) = drop_duplicates (map snd (business_categories_exploded B))"
proof -
  have "map snd (dim_category mid B)
        = map snd (enumerate 0 (drop_duplicates (map snd (business_categories_exploded B))))"
    unfolding dim_category_def by (simp add: comp_def case_prod_unfold)
  then show ?thesis by (simp only: map_snd_enumerate)
qed

subsection \<open>Entity dimension\<close>

lemma dim_business_rows:
  "set (dim_business B R) =
     (\<lambda>(b, stats). \<lparr>db_business_id = b_business_id b, db_name = b_name b,
                db_subcategory = subcategory b,
                db_is_open = map_option (\<lambda>i. i = 1) (b_is_open b),
                db_overall_avg_rating =
                  Option.bind (Option.bind stats (\<lambda>(_, a, _). a)) cast_decimal_3_1,
                db_overall_review_count = fill_0 (map_option (\<lambda>(_, _, n). n) stats)\<rparr>)
     ` set (left_join (\<lambda>b (k, _, _). sql_eq (b_business_id b) k) B
              (business_review_overall_stats R))"
  by (simp add: dim_business_def)

lemma dim_business_total:
  assumes "b \<in> set B"
  shows "\<exists>row \<in> set (dim_business B R).
      db_business_id row = b_business_id b \<and> db_name row = b_name b
      \<and> db_subcategory row = subcategory b"
proof -
  from assms obtain x where
    "(b, x) \<in> set (left_join (\<lambda>b (k, _, _). sql_eq (b_business_id b) k) B
                     (business_review_overall_stats R))"
    using left_join_total by fast
  then show ?thesis unfolding dim_business_rows by force
qed

lemma dim_business_origin:
  assumes "row \<in> set (dim_business B R)"
  shows "\<exists>b \<in> set B.
      db_business_id row = b_business_id b \<and> db_name row = b_name b
      \<and> db_subcategory row = subcategory b"
  using assms unfolding dim_business_rows by (auto dest: left_join_fst)

lemma stats_row:
  "(k, a, n) \<in> set (business_review_overall_stats R) \<longleftrightarrow>
     k \<in> r_business_id ` set R
     \<and> a = avg (map r_stars (filter (\<lambda>r. r_business_id r = k) R))
     \<and> n = int (length (filter (\<lambda>r. r_business_id r = k \<and> r_review_id r \<noteq> None) R))"
  by (auto simp: business_review_overall_stats_def count_col_map)

subsection \<open>Monthly fact table\<close>

lemma on_ym_iff: "on_ym k k' \<longleftrightarrow> k' = k \<and> key_not_null k"
  by (cases k; cases k') (auto simp: on_ym_def sql_eq_def key_not_null_def)

lemma find_filter_conv: "List.find P xs = (case filter P xs of [] \<Rightarrow> None | x # _ \<Rightarrow> Some x)"
  by (induction xs) auto

lemma left_join_unique:
  assumes "\<And>l. l \<in> set L \<Longrightarrow> length (filter (on l) R) \<le> 1"
  shows "left_join on L R = map (\<lambda>l. (l, List.find (on l) R)) L"
proof -
  have "(case filter (on l) R of [] \<Rightarrow> [(l, None)] | m # ms \<Rightarrow> map (\<lambda>x. (l, Some x)) (m # ms))
        = [(l, List.find (on l) R)]" if "l \<in> set L" for l
  proof (cases "filter (on l) R")
    case Nil
    then show ?thesis by (simp add: find_filter_conv)
  next
    case (Cons m ms)
    with assms [OF that] have "ms = []" by simp
    with Cons show ?thesis by (simp add: find_filter_conv)
  qed
  then have "map (\<lambda>l. case filter (on l) R of [] \<Rightarrow> [(l, None)] | m # ms \<Rightarrow> map (\<lambda>x. (l, Some x)) (m # ms)) L
        = map (\<lambda>l. [(l, List.find (on l) R)]) L"
    by (intro map_cong) simp_all
  then have "left_join on L R = concat (map (\<lambda>l. [(l, List.find (on l) R)]) L)"
    unfolding left_join_def by (rule arg_cong)
  also have "\<dots> = map (\<lambda>l. (l, List.find (on l) R)) L"
    by (induction L) simp_all
  finally show ?thesis .
qed

lemma filter_keyed_le_1:
  assumes "distinct ks"
  shows "length (filter (\<lambda>(k', n). on_ym k k') (map (\<lambda>k. (k, f k)) ks)) \<le> 1"
  using assms
proof (induction ks)
  case Nil then show ?case by simp
next
  case (Cons a ks)
  have "filter (\<lambda>(k', n). on_ym k k') (map (\<lambda>k. (k, f k)) ks) = []" if "on_ym k a"
    using that Cons.prems by (auto simp: filter_empty_conv on_ym_iff)
  with Cons show ?case by auto
qed

lemma find_keyed:
  "List.find (\<lambda>(k', n). on_ym k k') (map (\<lambda>k. (k, f k)) ks)
     = (if key_not_null k \<and> k \<in> set ks then Some (k, f k) else None)"
  by (induction ks) (auto simp: on_ym_iff)

lemma left_join_keyed:
  assumes "distinct ks"
  shows "left_join (\<lambda>l (k', n). on_ym (kf l) k') L (map (\<lambda>k. (k, f k)) ks)
         = map (\<lambda>l. (l, if key_not_null (kf l) \<and> kf l \<in> set ks then Some (kf l, f (kf l)) else None)) L"
proof -
  have "left_join (\<lambda>l (k', n). on_ym (kf l) k') L (map (\<lambda>k. (k, f k)) ks)
        = map (\<lambda>l. (l, List.find (\<lambda>(k', n). on_ym (kf l) k') (map (\<lambda>k. (k, f k)) ks))) L"
    by (rule left_join_unique) (rule filter_keyed_le_1 [OF assms])
  then show ?thesis by (simp only: find_keyed)
qed

lemma review_agg_eq:
  "review_agg_monthly to_date R =
     map (\<lambda>k. (k, int (length (filter (\<lambda>r. r_review_id r \<noteq> None) (reviews_of_key to_date R k)))))
       (drop_duplicates (map (\<lambda>r. ym_key_of (r_business_id r) (to_date_col to_date (r_date r))) R))"
  by (simp add: review_agg_monthly_def Let_def df_review_ym_def comp_def filter_map
      count_col_map reviews_of_key_def conj_commute)

lemma tip_agg_eq:
  "tip_agg_monthly to_date T =
     map (\<lambda>k. (k, int (length (tips_of_key to_date T k))))
       (drop_duplicates (map (\<lambda>t. ym_key_of (t_business_id t) (to_date_col to_date (t_date t))) T))"
  by (simp add: tip_agg_monthly_def Let_def df_tip_ym_def comp_def filter_map
      count_star_def tips_of_key_def)

lemma length_filter_map_filter:
  "length (filter P (List.map_filter g xs))
     = length (filter (\<lambda>x. case g x of None \<Rightarrow> False | Some y \<Rightarrow> P y) xs)"
  by (induction xs) (auto simp: List.map_filter_simps split: option.splits)

lemma checkin_agg_eq:
  "checkin_agg_monthly to_date C =
     map (\<lambda>k. (k, int (length (checkins_of_key to_date C k))))
       (drop_duplicates (map (\<lambda>(business_id, d). ym_key_of business_id (Some d)) (df_checkin_ym to_date C)))"
proof -
  have "length (filter (\<lambda>x. (case x of (business_id, d) \<Rightarrow> ym_key_of business_id (Some d)) = k) (df_checkin_ym to_date C))
        = length (checkins_of_key to_date C k)" for k
    unfolding df_checkin_ym_def length_filter_map_filter checkins_of_key_def
    by (intro arg_cong [where f = length] filter_cong) (auto split: option.splits)
  then show ?thesis
    by (simp add: checkin_agg_monthly_def Let_def count_star_def)
qed

lemma review_key_mem:
  "k \<in> set (map (\<lambda>r. ym_key_of (r_business_id r) (to_date_col to_date (r_date r))) R)
     \<longleftrightarrow> reviews_of_key to_date R k \<noteq> []"
  by (auto simp: reviews_of_key_def filter_empty_conv)

lemma tip_key_mem:
  "k \<in> set (map (\<lambda>t. ym_key_of (t_business_id t) (to_date_col to_date (t_date t))) T)
     \<longleftrightarrow> tips_of_key to_date T k \<noteq> []"
  by (auto simp: tips_of_key_def filter_empty_conv)

lemma checkin_key_mem:
  "k \<in> set (map (\<lambda>(business_id, d). ym_key_of business_id (Some d)) (df_checkin_ym to_date C))
     \<longleftrightarrow> checkins_of_key to_date C k \<noteq> []"
proof -
  have "length (filter (\<lambda>x. (case x of (business_id, d) \<Rightarrow> ym_key_of business_id (Some d)) = k) (df_checkin_ym to_date C))
        = length (checkins_of_key to_date C k)"
    unfolding df_checkin_ym_def length_filter_map_filter checkins_of_key_def
    by (intro arg_cong [where f = length] filter_cong) (auto split: option.splits)
  then have "filter (\<lambda>x. (case x of (business_id, d) \<Rightarrow> ym_key_of business_id (Some d)) = k) (df_checkin_ym to_date C) = []
      \<longleftrightarrow> checkins_of_key to_date C k = []"
    by (metis length_0_conv)
  then show ?thesis
    by (auto simp: filter_empty_conv)
qed

lemma set_base_facts:
  "k \<in> set (base_facts_monthly to_date R C T) \<longleftrightarrow>
     reviews_of_key to_date R k \<noteq> [] \<or> checkins_of_key to_date C k \<noteq> []
     \<or> tips_of_key to_date T k \<noteq> []"
  unfolding base_facts_monthly_def set_drop_duplicates set_append Un_iff
    review_agg_eq checkin_agg_eq tip_agg_eq map_map comp_def fst_conv map_ident
    review_key_mem [symmetric] tip_key_mem [symmetric] checkin_key_mem [symmetric]
  by simp

lemma fact_table_monthly_joined_eq:
  "fact_table_monthly_joined to_date R C T
     = map (fact_row_of to_date R C T) (base_facts_monthly to_date R C T)"
proof -
  let ?kr = "drop_duplicates (map (\<lambda>r. ym_key_of (r_business_id r) (to_date_col to_date (r_date r))) R)"
  let ?kc = "drop_duplicates (map (\<lambda>(business_id, d). ym_key_of business_id (Some d)) (df_checkin_ym to_date C))"
  let ?kt = "drop_duplicates (map (\<lambda>t. ym_key_of (t_business_id t) (to_date_col to_date (t_date t))) T)"
  let ?fr = "\<lambda>k. int (length (filter (\<lambda>r. r_review_id r \<noteq> None) (reviews_of_key to_date R k)))"
  let ?fc = "\<lambda>k. int (length (checkins_of_key to_date C k))"
  let ?ft = "\<lambda>k. int (length (tips_of_key to_date T k))"
  have j1: "(\<lambda>k (k', n). on_ym k k') = (\<lambda>l (k', n::int). on_ym (id l) k')" by simp
  have j2: "(\<lambda>(k, r) (k', n). on_ym k k')
            = (\<lambda>(l :: ym_key \<times> (ym_key \<times> int) option) (k', n::int). on_ym (fst l) k')"
    by (simp add: case_prod_unfold)
  have j3: "(\<lambda>((k, r), c) (k', n). on_ym k k')
            = (\<lambda>(l :: (ym_key \<times> (ym_key \<times> int) option) \<times> (ym_key \<times> int) option) (k', n::int).
                 on_ym (fst (fst l)) k')"
    by (simp add: case_prod_unfold)
  have zr: "reviews_of_key to_date R k = []" if "k \<notin> set ?kr" for k
    using that by (simp add: review_key_mem del: set_map)
  have zc: "checkins_of_key to_date C k = []" if "k \<notin> set ?kc" for k
    using that by (simp add: checkin_key_mem del: set_map)
  have zt: "tips_of_key to_date T k = []" if "k \<notin> set ?kt" for k
    using that by (simp add: tip_key_mem del: set_map)
  show ?thesis
    unfolding fact_table_monthly_joined_def review_agg_eq checkin_agg_eq tip_agg_eq j1 j2 j3
    by (simp only: left_join_keyed distinct_drop_duplicates)
      (auto simp: fact_row_of_def fill_0_def zr zc zt simp del: set_map set_drop_duplicates)
qed

lemma base_key_shape:
  assumes "k \<in> set (base_facts_monthly to_date R C T)"
  shows "\<exists>business_id d. k = ym_key_of business_id d"
proof -
  from assms consider "reviews_of_key to_date R k \<noteq> []" | "checkins_of_key to_date C k \<noteq> []"
    | "tips_of_key to_date T k \<noteq> []"
    unfolding set_base_facts by blast
  then show ?thesis
  proof cases
    case 1
    then show ?thesis by (auto simp: reviews_of_key_def filter_empty_conv)
  next
    case 2
    then show ?thesis by (auto simp: checkins_of_key_def filter_empty_conv split: option.splits)
  next
    case 3
    then show ?thesis by (auto simp: tips_of_key_def filter_empty_conv)
  qed
qed

lemma fact_row_of_key:
  assumes "k \<in> set (base_facts_monthly to_date R C T)" "1 \<le> m"
  shows "f_business_id (fact_row_of to_date R C T k) = Some b
         \<and> f_year (fact_row_of to_date R C T k) = y
         \<and> f_month (fact_row_of to_date R C T k) = m
         \<longleftrightarrow> k = (Some b, Some y, Some m)"
proof -
  from base_key_shape [OF assms(1)] obtain business_id d where "k = ym_key_of business_id d"
    by blast
  with assms(2) show ?thesis
    by (cases d) (auto simp: fact_row_of_def ym_key_of_def fill_0_def)
qed

lemma filter_eq_le_1: "distinct xs \<Longrightarrow> length (filter (\<lambda>y. y = x) xs) \<le> 1"
  by (induction xs) (auto simp: filter_empty_conv)

lemma distinct_base_facts: "distinct (base_facts_monthly to_date R C T)"
  by (simp add: base_facts_monthly_def)

lemma calendar_to_date_col:
  "calendar to_date \<Longrightarrow> to_date_col to_date x = Some d \<Longrightarrow> 1 \<le> month d"
  unfolding to_date_col_Some calendar_def valid_date_def by blast

lemma base_key_shape_calendar:
  assumes "calendar to_date" "k \<in> set (base_facts_monthly to_date R C T)"
  shows "\<exists>business_id d. k = ym_key_of business_id d \<and> (\<forall>d'. d = Some d' \<longrightarrow> 1 \<le> month d')"
proof -
  from assms(2) consider "reviews_of_key to_date R k \<noteq> []" | "checkins_of_key to_date C k \<noteq> []"
    | "tips_of_key to_date T k \<noteq> []"
    unfolding set_base_facts by blast
  then show ?thesis
  proof cases
    case 1
    then obtain r :: review where "ym_key_of (r_business_id r) (to_date_col to_date (r_date r)) = k"
      unfolding reviews_of_key_def filter_empty_conv by blast
    then show ?thesis using calendar_to_date_col [OF assms(1)] by metis
  next
    case 2
    then obtain c :: checkin and piece where "(case to_date (trim piece) of None \<Rightarrow> False
        | Some d \<Rightarrow> ym_key_of (c_business_id c) (Some d) = k)"
      unfolding checkins_of_key_def filter_empty_conv by blast
    then obtain d where "to_date (trim piece) = Some d" "ym_key_of (c_business_id c) (Some d) = k"
      by (cases "to_date (trim piece)") auto
    moreover from this assms(1) have "1 \<le> month d"
      unfolding calendar_def valid_date_def by blast
    ultimately show ?thesis by (metis option.inject)
  next
    case 3
    then obtain t :: tip where "ym_key_of (t_business_id t) (to_date_col to_date (t_date t)) = k"
      unfolding tips_of_key_def filter_empty_conv by blast
    then show ?thesis using calendar_to_date_col [OF assms(1)] by metis
  qed
qed

lemma distinct_fact_keys:
  assumes "calendar to_date"
  shows "distinct (map (\<lambda>r. (f_business_id r, f_year r, f_month r))
                      (fact_table_monthly_joined to_date R C T))"
proof -
  let ?base = "base_facts_monthly to_date R C T"
  let ?kf = "\<lambda>k :: ym_key. (fst k, fill_0 (fst (snd k)), fill_0 (snd (snd k)))"
  have "inj_on ?kf (set ?base)"
  proof (rule inj_onI)
    fix k1 k2 assume k: "k1 \<in> set ?base" "k2 \<in> set ?base" and eq: "?kf k1 = ?kf k2"
    from base_key_shape_calendar [OF assms k(1)] obtain b1 d1 where
      1: "k1 = ym_key_of b1 d1" "\<forall>d'. d1 = Some d' \<longrightarrow> 1 \<le> month d'" by blast
    from base_key_shape_calendar [OF assms k(2)] obtain b2 d2 where
      2: "k2 = ym_key_of b2 d2" "\<forall>d'. d2 = Some d' \<longrightarrow> 1 \<le> month d'" by blast
    from eq 1 2 show "k1 = k2"
      by (cases d1; cases d2) (auto simp: ym_key_of_def fill_0_def)
  qed
  then have "distinct (map ?kf ?base)"
    by (simp add: distinct_map distinct_base_facts)
  moreover have "map (\<lambda>r. (f_business_id r, f_year r, f_month r)) (fact_table_monthly_joined to_date R C T)
      = map ?kf ?base"
    by (simp add: fact_table_monthly_joined_eq fact_row_of_def comp_def)
  ultimately show ?thesis by simp
qed

lemma map_fst_lag: "map fst (lag_review_count prev P) = P"
  by (induction P arbitrary: prev) auto

lemma lag_cases:
  fixes ky :: "fact_row \<Rightarrow> 'k::linorder"
  assumes "sorted_wrt (\<lambda>a b. ky a < ky b) P" "(r, g) \<in> set (lag_review_count prev P)"
  shows "(P \<noteq> [] \<and> r = hd P \<and> g = prev)
       \<or> (\<exists>p \<in> set P. ky p < ky r \<and> g = Some (review_count_monthly p)
            \<and> (\<forall>q \<in> set P. \<not> (ky p < ky q \<and> ky q < ky r)))"
  using assms
proof (induction P arbitrary: prev)
  case Nil
  then show ?case by simp
next
  case (Cons x xs)
  show ?case
  proof (cases "(r, g) = (x, prev)")
    case True
    then show ?thesis by simp
  next
    case False
    with Cons.prems have mem: "(r, g) \<in> set (lag_review_count (Some (review_count_monthly x)) xs)"
      by auto
    from Cons.prems have sorted: "sorted_wrt (\<lambda>a b. ky a < ky b) xs" and
      less: "\<forall>q \<in> set xs. ky x < ky q" by simp_all
    from mem have rin: "r \<in> set xs"
      by (metis map_fst_lag fst_conv image_eqI list.set_map)
    from Cons.IH [OF sorted mem] show ?thesis
    proof
      assume first: "xs \<noteq> [] \<and> r = hd xs \<and> g = Some (review_count_monthly x)"
      then obtain ys where xs: "xs = r # ys" by (cases xs) auto
      with sorted have after: "\<forall>q \<in> set ys. ky r < ky q" by simp
      have "ky x < ky r" using less rin by blast
      moreover have "\<forall>q \<in> set (x # xs). \<not> (ky x < ky q \<and> ky q < ky r)"
        using after xs by auto
      ultimately show ?thesis using first by auto
    next
      assume "\<exists>p \<in> set xs. ky p < ky r \<and> g = Some (review_count_monthly p)
            \<and> (\<forall>q \<in> set xs. \<not> (ky p < ky q \<and> ky q < ky r))"
      then obtain p where p: "p \<in> set xs" "ky p < ky r" "g = Some (review_count_monthly p)"
        "\<forall>q \<in> set xs. \<not> (ky p < ky q \<and> ky q < ky r)" by blast
      have "\<not> (ky p < ky x \<and> ky x < ky r)" using less p(1) by (auto dest: less_asym)
      with p show ?thesis by auto
    qed
  qed
qed

lemma distinct_filter_keys:
  "distinct (map (\<lambda>r. (f r, g r)) xs) \<Longrightarrow> distinct (map g (filter (\<lambda>r. f r = b) xs))"
  by (induction xs) (auto simp: image_iff)

lemma set_business_window:
  "set (business_window tab b) = {r \<in> set tab. f_business_id r = b}"
  by (auto simp: business_window_def)

lemma business_window_strict:
  assumes "distinct (map (\<lambda>r. (f_business_id r, f_year r, f_month r)) tab)"
  shows "sorted_wrt (\<lambda>a b. (f_year a, f_month a) < (f_year b, f_month b)) (business_window tab b)"
proof -
  let ?ym = "\<lambda>r. (f_year r, f_month r)"
  let ?F = "filter (\<lambda>r. f_business_id r = b) tab"
  have d: "distinct (map ?ym ?F)"
    using assms by (rule distinct_filter_keys)
  then have "distinct (sort_key ?ym ?F)" "inj_on ?ym (set (sort_key ?ym ?F))"
    by (simp_all add: distinct_map)
  then have "distinct (map ?ym (sort_key ?ym ?F))"
    by (simp add: distinct_map)
  moreover have "sorted (map ?ym (sort_key ?ym ?F))"
    by (rule sorted_sort_key)
  ultimately have "sorted_wrt (<) (map ?ym (sort_key ?ym ?F))"
    by (simp add: strict_sorted_iff)
  then show ?thesis
    by (simp add: business_window_def sorted_wrt_map)
qed

lemma set_fact_table_with_lag:
  "(r, prev) \<in> set (fact_table_with_lag tab) \<longleftrightarrow>
     r \<in> set tab \<and> (r, prev) \<in> set (lag_review_count None (business_window tab (f_business_id r)))"
proof
  assume "(r, prev) \<in> set (fact_table_with_lag tab)"
  then obtain b where b: "(r, prev) \<in> set (lag_review_count None (business_window tab b))"
    by (auto simp: fact_table_with_lag_def)
  then have "r \<in> set (business_window tab b)"
    by (metis map_fst_lag fst_conv image_eqI list.set_map)
  then have "r \<in> set tab" "f_business_id r = b"
    by (simp_all add: set_business_window)
  with b show "r \<in> set tab \<and> (r, prev) \<in> set (lag_review_count None (business_window tab (f_business_id r)))"
    by simp
next
  assume "r \<in> set tab \<and> (r, prev) \<in> set (lag_review_count None (business_window tab (f_business_id r)))"
  then show "(r, prev) \<in> set (fact_table_with_lag tab)"
    by (auto simp: fact_table_with_lag_def)
qed

lemma fst_set_with_growth: "fst ` set (fact_table_with_growth tab) = set tab"
proof -
  have "r \<in> fst ` set (fact_table_with_lag tab)" if "r \<in> set tab" for r
  proof -
    from that have "r \<in> set (business_window tab (f_business_id r))"
      by (simp add: set_business_window)
    then have "r \<in> set (map fst (lag_review_count None (business_window tab (f_business_id r))))"
      by (simp only: map_fst_lag)
    then obtain prev where "(r, prev) \<in> set (lag_review_count None (business_window tab (f_business_id r)))"
      by auto
    with that have "(r, prev) \<in> set (fact_table_with_lag tab)"
      by (simp add: set_fact_table_with_lag)
    then show ?thesis by force
  qed
  moreover have "r \<in> set tab" if "r \<in> fst ` set (fact_table_with_lag tab)" for r
    using that by (auto simp: set_fact_table_with_lag)
  ultimately have "fst ` set (fact_table_with_lag tab) = set tab" by blast
  moreover have "fst ` set (fact_table_with_growth tab) = fst ` set (fact_table_with_lag tab)"
    by (force simp: fact_table_with_growth_def)
  ultimately show ?thesis by simp
qed

lemma strict_sorted_inj:
  fixes ky :: "'a \<Rightarrow> 'k::linorder"
  shows "sorted_wrt (\<lambda>a b. ky a < ky b) P \<Longrightarrow> inj_on ky (set P)"
proof (induction P)
  case Nil
  then show ?case by simp
next
  case (Cons x xs)
  then have ih: "inj_on ky (set xs)" and lt: "\<forall>q \<in> set xs. ky x < ky q"
    by simp_all
  from lt have "ky x \<notin> ky ` (set xs - {x})" by force
  with ih show ?case by simp
qed

lemma growth_of_rows:
  assumes d: "distinct (map (\<lambda>r. (f_business_id r, f_year r, f_month r)) tab)"
    and mem: "(r, g) \<in> set (fact_table_with_growth tab)"
  shows "(first_row tab r \<longrightarrow> g = None)
       \<and> (\<forall>p. previous_row tab p r \<longrightarrow>
             g = (if review_count_monthly p = 0 then None
                  else Some (of_int (review_count_monthly r - review_count_monthly p)
                             / of_int (review_count_monthly p))))"
proof -
  let ?ym = "\<lambda>r. (f_year r, f_month r)"
  let ?P = "business_window tab (f_business_id r)"
  from mem obtain prev where prev: "(r, prev) \<in> set (fact_table_with_lag tab)"
    and g: "g = review_growth_rate r prev"
    by (auto simp: fact_table_with_growth_def)
  then have lag: "(r, prev) \<in> set (lag_review_count None ?P)"
    by (simp add: set_fact_table_with_lag)
  have strict: "sorted_wrt (\<lambda>a b. ?ym a < ?ym b) ?P"
    using d by (rule business_window_strict)
  have inP: "q \<in> set ?P \<longleftrightarrow> q \<in> set tab \<and> f_business_id q = f_business_id r" for q
    by (simp add: set_business_window)
  from lag_cases [OF strict lag] consider
    (head) "?P \<noteq> []" "r = hd ?P" "prev = None"
    | (pred) p' where "p' \<in> set ?P" "?ym p' < ?ym r" "prev = Some (review_count_monthly p')"
        "\<forall>q \<in> set ?P. \<not> (?ym p' < ?ym q \<and> ?ym q < ?ym r)"
    by blast
  then show ?thesis
  proof cases
    case head
    then obtain ys where P: "?P = r # ys" by (cases ?P) auto
    with strict have after: "\<forall>q \<in> set ys. ?ym r < ?ym q" by simp
    have none_before: "\<not> ?ym p < ?ym r" if "p \<in> set ?P" for p
      using that after unfolding P by (auto dest: less_asym)
    have "\<not> previous_row tab p r" for p
      using none_before [of p] by (auto simp: previous_row_def inP)
    with head g show ?thesis by (simp add: review_growth_rate_def)
  next
    case pred
    have nf: "\<not> first_row tab r"
      using pred(1,2) by (auto simp: first_row_def inP)
    have "g = (if review_count_monthly p = 0 then None
                  else Some (of_int (review_count_monthly r - review_count_monthly p)
                             / of_int (review_count_monthly p)))" if pr: "previous_row tab p r" for p
    proof -
      from pr have p: "p \<in> set ?P" "?ym p < ?ym r"
        and between: "\<forall>q \<in> set ?P. \<not> (?ym p < ?ym q \<and> ?ym q < ?ym r)"
        by (auto simp: previous_row_def inP)
      have "\<not> ?ym p < ?ym p'" using between pred(1,2) by blast
      moreover have "\<not> ?ym p' < ?ym p" using pred(4) p by blast
      ultimately have eq: "?ym p = ?ym p'" by (simp add: not_less order.antisym)
      have "inj_on ?ym (set ?P)"
        using strict by (rule strict_sorted_inj)
      with eq p(1) pred(1) have "p = p'" by (auto dest: inj_onD)
      with pred(3) g show ?thesis by (simp add: review_growth_rate_def)
    qed
    with nf show ?thesis by blast
  qed
qed

section \<open>Facts about the investor pipeline\<close>

lemma snd_create_dim_category:
  "snd (create_dim_category df) = map (\<lambda>b. b\<lparr>b_categories := Some (fillna_empty (b_categories b))\<rparr>) df"
  by (simp add: create_dim_category_def Let_def)

lemma fst_create_dim_category:
  "map snd (fst (create_dim_category df)) =
     drop_duplicates (filter (\<lambda>c. c \<noteq> '''')
       (concat (map (\<lambda>b. split_comma_space (fillna_empty (b_categories b))) df)))"
proof -
  have "map snd (map (\<lambda>(i, c). (int i, c)) (enumerate 1 xs)) = xs" for xs :: "string list"
    by (simp add: comp_def case_prod_unfold map_snd_enumerate [unfolded comp_def])
  moreover have "map (\<lambda>b. case b_categories b of None \<Rightarrow> [] | Some x \<Rightarrow> split_comma_space x)
            (map (\<lambda>b. b\<lparr>b_categories := Some (fillna_empty (b_categories b))\<rparr>) df)
        = map (\<lambda>b. split_comma_space (fillna_empty (b_categories b))) df"
    by (simp add: comp_def)
  ultimately show ?thesis
    by (simp add: create_dim_category_def Let_def del: map_map)
qed

lemma set_map_filter: "set (List.map_filter f xs) = {y. \<exists>x \<in> set xs. f x = Some y}"
  by (induction xs) (auto simp: List.map_filter_simps split: option.splits)

lemma set_enumerate_snd: "snd ` set (enumerate n xs) = set xs"
  by (metis list.set_map map_snd_enumerate)

lemma create_dim_business_rows:
  "row \<in> set (create_dim_business df loc) \<Longrightarrow>
     \<exists>b \<in> set df. pb_business_nk row = b_business_id b \<and> pb_name row = b_name b
        \<and> pb_review_count row = b_review_count b"
proof -
  assume "row \<in> set (create_dim_business df loc)"
  then obtain i b l where
    "(i, (b, l)) \<in> set (enumerate 1 (left_join (\<lambda>b (location_key, l). l = location_of b) df loc))"
    and row: "pb_business_nk row = b_business_id b" "pb_name row = b_name b"
      "pb_review_count row = b_review_count b"
    by (auto simp: create_dim_business_def)
  then have "(b, l) \<in> snd ` set (enumerate 1 (left_join (\<lambda>b (location_key, l). l = location_of b) df loc))"
    by force
  then have "(b, l) \<in> set (left_join (\<lambda>b (location_key, l). l = location_of b) df loc)"
    by (simp only: set_enumerate_snd)
  then have "b \<in> set df" by (rule left_join_fst)
  with row show ?thesis by blast
qed

lemma create_dim_business_total:
  assumes "b \<in> set df"
  shows "\<exists>row \<in> set (create_dim_business df loc). pb_business_nk row = b_business_id b
        \<and> pb_name row = b_name b \<and> pb_review_count row = b_review_count b"
proof -
  let ?J = "left_join (\<lambda>b (location_key, l). l = location_of b) df loc"
  from assms obtain l where "(b, l) \<in> set ?J" using left_join_total by fast
  then have "(b, l) \<in> snd ` set (enumerate 1 ?J)" by (simp only: set_enumerate_snd)
  then obtain i where "(i, (b, l)) \<in> set (enumerate 1 ?J)" by force
  then show ?thesis unfolding create_dim_business_def by force
qed

lemma series_map_Inr:
  "series_map m vs = Inr ks \<Longrightarrow> ks = map (map_of m) vs"
  by (auto simp: series_map_def split: if_splits)

lemma bridge_rows:
  assumes "create_fact_business_categories df cat dimb = Inr rows"
  shows "distinct rows \<and> (\<forall>(bk, ck) \<in> set rows. bk \<in> pb_business_key ` set dimb \<and> ck \<in> fst ` set cat)"
proof -
  let ?bm = "map (\<lambda>r. (pb_business_nk r, pb_business_key r)) dimb"
  let ?cm = "map (\<lambda>(category_key, category_name). (category_name, category_key)) cat"
  from assms obtain vs ws where
    rows: "rows = drop_duplicates (List.map_filter
              (\<lambda>(bk, ck). case bk of None \<Rightarrow> None | Some b \<Rightarrow> map_option (Pair b) ck)
              (zip (map (map_of ?bm) vs) (map (map_of ?cm) ws)))"
    by (auto simp: create_fact_business_categories_def Let_def split: sum.splits dest!: series_map_Inr)
  have "bk \<in> pb_business_key ` set dimb \<and> ck \<in> fst ` set cat" if "(bk, ck) \<in> set rows" for bk ck
  proof -
    from that obtain v w where "map_of ?bm v = Some bk" "map_of ?cm w = Some ck"
      unfolding rows by (auto simp: set_map_filter set_zip split: option.splits)
    then have "(v, bk) \<in> set ?bm" "(w, ck) \<in> set ?cm" by (auto dest: map_of_SomeD)
    then show ?thesis by force
  qed
  then show ?thesis by (auto simp: rows)
qed

lemma bridge_returns:
  assumes "distinct (map pb_business_nk dimb) \<and> distinct (map snd cat)"
  shows "\<exists>rows. create_fact_business_categories df cat dimb = Inr rows"
proof -
  have "map fst (map (\<lambda>r. (pb_business_nk r, pb_business_key r)) dimb) = map pb_business_nk dimb"
    by (simp add: comp_def)
  moreover have "map fst (map (\<lambda>(category_key, category_name). (category_name, category_key)) cat)
      = map snd cat"
    by (simp add: comp_def case_prod_unfold)
  ultimately show ?thesis
    using assms
    by (simp add: create_fact_business_categories_def Let_def series_map_def del: map_map)
qed

subsection \<open>Date dimension\<close>















section \<open>Monthly performance fact table\<close>

text \<open>
  Claim C1, as stated, fails for the review count: a review record that carries no
  \<open>review_id\<close> is a review of its entity and month and makes the row exist, but
  \<open>F.count("review_id")\<close> does not count it. With one such review in January 2018 the
  table has the row of that month with review count 0.
\<close>

theorem monthly_review_count_counterexample:
  "length (reviews_of_key sample_to_date sample_reviews_without_id
             (Some ''b1'', Some 2018, Some 1)) = 1
   \<and> fact_table_monthly_joined sample_to_date sample_reviews_without_id [] []
       = [sample_fact_row 2018 1 0 0 0]"
  by code_simp

text \<open>
  Claim C1, amended. For every entity \<open>b\<close> and every month \<open>(y, m)\<close> with \<open>1 \<le> m\<close>: the
  joined monthly table has a row for \<open>(b, y, m)\<close> exactly when the entity has a review,
  an exploded check-in piece or a tip whose date parses into that month (the union of the
  three aggregates); there is at most one such row; and in it the check-in count and the
  tip count are the numbers of those events, and the review count is the number of the
  month's reviews that carry a \<open>review_id\<close> (each count is 0 when its list is empty).
\<close>

theorem monthly_fact_rows:
  assumes "1 \<le> m"
  shows "((\<exists>row \<in> set (fact_table_monthly_joined to_date df_review df_checkin df_tip).
             f_business_id row = Some b \<and> f_year row = y \<and> f_month row = m)
          \<longleftrightarrow> reviews_of_key to_date df_review (Some b, Some y, Some m) \<noteq> []
              \<or> checkins_of_key to_date df_checkin (Some b, Some y, Some m) \<noteq> []
              \<or> tips_of_key to_date df_tip (Some b, Some y, Some m) \<noteq> [])
       \<and> (\<forall>row \<in> set (fact_table_monthly_joined to_date df_review df_checkin df_tip).
             f_business_id row = Some b \<and> f_year row = y \<and> f_month row = m \<longrightarrow>
               review_count_monthly row
                 = int (length (filter (\<lambda>r. r_review_id r \<noteq> None)
                                  (reviews_of_key to_date df_review (Some b, Some y, Some m))))
               \<and> checkin_count_monthly row
                 = int (length (checkins_of_key to_date df_checkin (Some b, Some y, Some m)))
               \<and> tip_count_monthly row
                 = int (length (tips_of_key to_date df_tip (Some b, Some y, Some m))))
       \<and> length (filter (\<lambda>row. f_business_id row = Some b \<and> f_year row = y \<and> f_month row = m)
                   (fact_table_monthly_joined to_date df_review df_checkin df_tip)) \<le> 1"
proof -
  let ?base = "base_facts_monthly to_date df_review df_checkin df_tip"
  let ?row = "fact_row_of to_date df_review df_checkin df_tip"
  let ?k = "(Some b, Some y, Some m)"
  let ?P = "\<lambda>row. f_business_id row = Some b \<and> f_year row = y \<and> f_month row = m"
  have key: "?P (?row k) \<longleftrightarrow> k = ?k" if "k \<in> set ?base" for k
    using fact_row_of_key [OF that assms] .
  have ex: "(\<exists>row \<in> set (map ?row ?base). ?P row) \<longleftrightarrow> ?k \<in> set ?base"
    using key by auto
  have counts: "\<forall>row \<in> set (map ?row ?base). ?P row \<longrightarrow>
               review_count_monthly row
                 = int (length (filter (\<lambda>r. r_review_id r \<noteq> None) (reviews_of_key to_date df_review ?k)))
               \<and> checkin_count_monthly row = int (length (checkins_of_key to_date df_checkin ?k))
               \<and> tip_count_monthly row = int (length (tips_of_key to_date df_tip ?k))"
  proof (intro ballI impI)
    fix row assume "row \<in> set (map ?row ?base)" "?P row"
    then obtain k where k: "k \<in> set ?base" "row = ?row k" "?P (?row k)" by auto
    from k(3) have "k = ?k" unfolding key [OF k(1)] .
    with k(2) have "row = ?row ?k" by simp
    then show "review_count_monthly row
                 = int (length (filter (\<lambda>r. r_review_id r \<noteq> None) (reviews_of_key to_date df_review ?k)))
               \<and> checkin_count_monthly row = int (length (checkins_of_key to_date df_checkin ?k))
               \<and> tip_count_monthly row = int (length (tips_of_key to_date df_tip ?k))"
      by (simp add: fact_row_of_def key_not_null_def)
  qed
  have "filter ?P (map ?row ?base) = map ?row (filter (\<lambda>k. k = ?k) ?base)"
    unfolding filter_map comp_def
    by (intro arg_cong [where f = "map ?row"] filter_cong refl) (rule key)
  moreover have "length (filter (\<lambda>k. k = ?k) ?base) \<le> 1"
    by (rule filter_eq_le_1) (rule distinct_base_facts)
  ultimately have le: "length (filter ?P (map ?row ?base)) \<le> 1" by simp
  from ex counts le show ?thesis
    unfolding fact_table_monthly_joined_eq set_base_facts by blast
qed

text \<open>
  The sample business has four reviews, five readable check-in pieces and two tips in
  January 2018.
\<close>

theorem monthly_fact_rows_witness:
  "(1::nat) \<le> 1
   \<and> reviews_of_key sample_to_date sample_reviews (Some ''b1'', Some 2018, Some 1) \<noteq> []
   \<and> fact_table_monthly_joined sample_to_date sample_reviews sample_checkins sample_tips
       = [sample_fact_row 2018 1 4 5 2]
   \<and> int (length (filter (\<lambda>r. r_review_id r \<noteq> None)
                     (reviews_of_key sample_to_date sample_reviews (Some ''b1'', Some 2018, Some 1)))) = 4
   \<and> int (length (checkins_of_key sample_to_date sample_checkins (Some ''b1'', Some 2018, Some 1))) = 5
   \<and> int (length (tips_of_key sample_to_date sample_tips (Some ''b1'', Some 2018, Some 1))) = 2"
proof -
  have tab: "fact_table_monthly_joined sample_to_date sample_reviews sample_checkins sample_tips
       = [sample_fact_row 2018 1 4 5 2]"
    by code_simp
  have ev: "reviews_of_key sample_to_date sample_reviews (Some ''b1'', Some 2018, Some 1) \<noteq> []"
    by code_simp
  have row: "sample_fact_row 2018 1 4 5 2
      \<in> set (fact_table_monthly_joined sample_to_date sample_reviews sample_checkins sample_tips)"
    unfolding tab by simp
  have key: "f_business_id (sample_fact_row 2018 1 4 5 2) = Some ''b1''
      \<and> f_year (sample_fact_row 2018 1 4 5 2) = 2018 \<and> f_month (sample_fact_row 2018 1 4 5 2) = 1"
    by (simp add: sample_fact_row_def)
  have one: "(1::nat) \<le> 1" by simp
  from monthly_fact_rows [OF one, of sample_to_date sample_reviews sample_checkins sample_tips
      "''b1''" 2018] row key
  have "review_count_monthly (sample_fact_row 2018 1 4 5 2)
          = int (length (filter (\<lambda>r. r_review_id r \<noteq> None)
                 (reviews_of_key sample_to_date sample_reviews (Some ''b1'', Some 2018, Some 1))))
        \<and> checkin_count_monthly (sample_fact_row 2018 1 4 5 2)
          = int (length (checkins_of_key sample_to_date sample_checkins (Some ''b1'', Some 2018, Some 1)))
        \<and> tip_count_monthly (sample_fact_row 2018 1 4 5 2)
          = int (length (tips_of_key sample_to_date sample_tips (Some ''b1'', Some 2018, Some 1)))"
    by blast
  then have "int (length (filter (\<lambda>r. r_review_id r \<noteq> None)
                 (reviews_of_key sample_to_date sample_reviews (Some ''b1'', Some 2018, Some 1)))) = 4
        \<and> int (length (checkins_of_key sample_to_date sample_checkins (Some ''b1'', Some 2018, Some 1))) = 5
        \<and> int (length (tips_of_key sample_to_date sample_tips (Some ''b1'', Some 2018, Some 1))) = 2"
    by (simp add: sample_fact_row_def)
  with one ev tab show ?thesis by blast
qed

section \<open>Growth rate\<close>

text \<open>
  Claim C2. For a parser that returns calendar dates, every row of the joined monthly
  table gets a growth rate, and for every row \<open>r\<close> with its growth rate \<open>g\<close>: when \<open>r\<close>
  is the first row of its entity in the order of \<open>(year, month)\<close>, \<open>g\<close> is null; when \<open>p\<close>
  is the row before \<open>r\<close>, \<open>g\<close> is null if the review count of \<open>p\<close> is 0, and otherwise
  it is the review count of \<open>r\<close> minus that of \<open>p\<close>, divided by that of \<open>p\<close>. The
  quotient is exact in the model (Spark rounds it to a double).
\<close>

theorem growth_rate_previous_row:
  assumes "calendar to_date"
  shows "fst ` set (fact_table_with_growth
                     (fact_table_monthly_joined to_date df_review df_checkin df_tip))
           = set (fact_table_monthly_joined to_date df_review df_checkin df_tip)
       \<and> (\<forall>(r, g) \<in> set (fact_table_with_growth
                           (fact_table_monthly_joined to_date df_review df_checkin df_tip)).
            (first_row (fact_table_monthly_joined to_date df_review df_checkin df_tip) r
               \<longrightarrow> g = None)
            \<and> (\<forall>p. previous_row (fact_table_monthly_joined to_date df_review df_checkin df_tip) p r
                  \<longrightarrow> g = (if review_count_monthly p = 0 then None
                           else Some (of_int (review_count_monthly r - review_count_monthly p)
                                      / of_int (review_count_monthly p)))))"
proof -
  let ?tab = "fact_table_monthly_joined to_date df_review df_checkin df_tip"
  have d: "distinct (map (\<lambda>r. (f_business_id r, f_year r, f_month r)) ?tab)"
    using assms by (rule distinct_fact_keys)
  have "\<forall>x \<in> set (fact_table_with_growth ?tab).
          case x of (r, g) \<Rightarrow>
            (first_row ?tab r \<longrightarrow> g = None)
            \<and> (\<forall>p. previous_row ?tab p r
                  \<longrightarrow> g = (if review_count_monthly p = 0 then None
                           else Some (of_int (review_count_monthly r - review_count_monthly p)
                                      / of_int (review_count_monthly p))))"
  proof
    fix x assume x: "x \<in> set (fact_table_with_growth ?tab)"
    obtain r g where rg: "x = (r, g)" by (cases x)
    with x have "(r, g) \<in> set (fact_table_with_growth ?tab)" by simp
    from growth_of_rows [OF d this] rg
    show "case x of (r, g) \<Rightarrow>
            (first_row ?tab r \<longrightarrow> g = None)
            \<and> (\<forall>p. previous_row ?tab p r
                  \<longrightarrow> g = (if review_count_monthly p = 0 then None
                           else Some (of_int (review_count_monthly r - review_count_monthly p)
                                      / of_int (review_count_monthly p))))"
      by simp
  qed
  with fst_set_with_growth [of ?tab] show ?thesis by blast
qed

text \<open>
  The sample business has a check-in and no review in January 2018, two reviews in
  February and three in March: January is the first month and has no growth rate;
  February follows a month with 0 reviews and has none either; March follows February and
  has the growth rate \<open>(3 - 2) / 2\<close>, one half.
\<close>

theorem growth_rate_previous_row_witness:
  "calendar sample_to_date
   \<and> fact_table_with_growth
       (fact_table_monthly_joined sample_to_date sample_growth_reviews sample_growth_checkins [])
       = [(sample_fact_row 2018 1 0 1 0, None), (sample_fact_row 2018 2 2 0 0, None),
          (sample_fact_row 2018 3 3 0 0, Some (1 / 2))]
   \<and> first_row
       (fact_table_monthly_joined sample_to_date sample_growth_reviews sample_growth_checkins [])
       (sample_fact_row 2018 1 0 1 0)
   \<and> previous_row
       (fact_table_monthly_joined sample_to_date sample_growth_reviews sample_growth_checkins [])
       (sample_fact_row 2018 1 0 1 0) (sample_fact_row 2018 2 2 0 0)
   \<and> previous_row
       (fact_table_monthly_joined sample_to_date sample_growth_reviews sample_growth_checkins [])
       (sample_fact_row 2018 2 2 0 0) (sample_fact_row 2018 3 3 0 0)
   \<and> (if review_count_monthly (sample_fact_row 2018 2 2 0 0) = 0 then None
       else Some (of_int (review_count_monthly (sample_fact_row 2018 3 3 0 0)
                          - review_count_monthly (sample_fact_row 2018 2 2 0 0))
                  / of_int (review_count_monthly (sample_fact_row 2018 2 2 0 0))))
       = Some (1 / 2 :: rat)"
proof -
  let ?tab = "fact_table_monthly_joined sample_to_date sample_growth_reviews sample_growth_checkins []"
  have tab: "?tab = [sample_fact_row 2018 2 2 0 0, sample_fact_row 2018 3 3 0 0,
                     sample_fact_row 2018 1 0 1 0]"
    by code_simp
  have growth: "fact_table_with_growth ?tab
       = [(sample_fact_row 2018 1 0 1 0, None), (sample_fact_row 2018 2 2 0 0, None),
          (sample_fact_row 2018 3 3 0 0, Some (1 / 2))]"
    by code_simp
  have first: "first_row ?tab (sample_fact_row 2018 1 0 1 0)"
    unfolding tab by code_simp
  have p12: "previous_row ?tab (sample_fact_row 2018 1 0 1 0) (sample_fact_row 2018 2 2 0 0)"
    unfolding tab by code_simp
  have p23: "previous_row ?tab (sample_fact_row 2018 2 2 0 0) (sample_fact_row 2018 3 3 0 0)"
    unfolding tab by code_simp
  have mem: "(sample_fact_row 2018 3 3 0 0, Some (1 / 2)) \<in> set (fact_table_with_growth ?tab)"
    unfolding growth by simp
  from growth_rate_previous_row [OF calendar_sample_to_date,
      of sample_growth_reviews sample_growth_checkins "[]"] mem p23
  have "Some (1 / 2 :: rat)
        = (if review_count_monthly (sample_fact_row 2018 2 2 0 0) = 0 then None
           else Some (of_int (review_count_monthly (sample_fact_row 2018 3 3 0 0)
                              - review_count_monthly (sample_fact_row 2018 2 2 0 0))
                      / of_int (review_count_monthly (sample_fact_row 2018 2 2 0 0))))"
    by blast
  with calendar_sample_to_date growth first p12 p23 show ?thesis by simp
qed

section \<open>Date dimension\<close>




section \<open>Category bridge\<close>

text \<open>
  Claim C4, as stated, fails for the bridge of the marketing pipeline:
  \<open>BusinessCategoryBridge\<close> is the exploded category array without the empty strings,
  with no \<open>distinct\<close>, so a business that lists \<open>Food\<close> twice has that pair twice.
\<close>

theorem marketing_bridge_counterexample:
  "bridge_business_category [mk_business (Some ''b1'') (Some ''Food, Bars, Food'')]
     = [(Some ''b1'', ''Food''), (Some ''b1'', ''Bars''), (Some ''b1'', ''Food'')]
   \<and> \<not> distinct (bridge_business_category [mk_business (Some ''b1'') (Some ''Food, Bars, Food'')])"
  by code_simp

text \<open>
  Claim C4, amended. In the business-owner pipeline the bridge has no duplicate row,
  every category id of a bridge row is an id of \<open>Dim_Category\<close>, every business id of a
  bridge row is the id of a row of \<open>Dim_Business\<close>, and every listed category of a
  business has its bridge row. In the investor pipeline
  \<open>create_fact_business_categories\<close> returns a bridge when the business keys of the
  given \<open>Dim_Business\<close> and the names of the given \<open>Dim_Category\<close> are unique, and a
  bridge that it returns has no duplicate row and only keys of those two dimensions.
\<close>

theorem bridge_unique_and_referential:
  "distinct (fact_business_categories monotonically_increasing_id df_business)
   \<and> (\<forall>(business_id, category_id)
         \<in> set (fact_business_categories monotonically_increasing_id df_business).
        category_id \<in> fst ` set (dim_category monotonically_increasing_id df_business)
        \<and> business_id \<in> db_business_id ` set (dim_business df_business df_review))
   \<and> (\<forall>(business_id, category_name) \<in> set (business_categories_exploded df_business).
        \<exists>category_id.
          (category_id, category_name) \<in> set (dim_category monotonically_increasing_id df_business)
          \<and> (business_id, category_id)
              \<in> set (fact_business_categories monotonically_increasing_id df_business))
   \<and> (distinct (map pb_business_nk df_dim_business) \<and> distinct (map snd df_category)
        \<longrightarrow> (\<exists>rows. create_fact_business_categories df_business' df_category df_dim_business
                        = Inr rows))
   \<and> (\<forall>rows. create_fact_business_categories df_business' df_category df_dim_business = Inr rows
        \<longrightarrow> distinct rows
            \<and> (\<forall>(business_key, category_key) \<in> set rows.
                  business_key \<in> pb_business_key ` set df_dim_business
                  \<and> category_key \<in> fst ` set df_category))"
proof (intro conjI)
  show "distinct (fact_business_categories monotonically_increasing_id df_business)"
    by (simp add: fact_business_categories_def)
next
  show "\<forall>(business_id, category_id)
         \<in> set (fact_business_categories monotonically_increasing_id df_business).
        category_id \<in> fst ` set (dim_category monotonically_increasing_id df_business)
        \<and> business_id \<in> db_business_id ` set (dim_business df_business df_review)"
  proof (clarify, intro conjI)
    fix bid cid
    assume "(bid, cid) \<in> set (fact_business_categories monotonically_increasing_id df_business)"
    then obtain c c' where ex: "(bid, c) \<in> set (business_categories_exploded df_business)"
      and dim: "(cid, c') \<in> set (dim_category monotonically_increasing_id df_business)"
      by (auto simp: fact_business_categories_def set_inner_join)
    from dim show "cid \<in> fst ` set (dim_category monotonically_increasing_id df_business)"
      by force
    from ex obtain b where "b \<in> set df_business" "bid = b_business_id b"
      by (auto simp: exploded_mem)
    then show "bid \<in> db_business_id ` set (dim_business df_business df_review)"
      using dim_business_total [of b df_business df_review] by force
  qed
next
  show "\<forall>(business_id, category_name) \<in> set (business_categories_exploded df_business).
        \<exists>category_id.
          (category_id, category_name) \<in> set (dim_category monotonically_increasing_id df_business)
          \<and> (business_id, category_id)
              \<in> set (fact_business_categories monotonically_increasing_id df_business)"
  proof clarify
    fix bid c
    assume ex: "(bid, c) \<in> set (business_categories_exploded df_business)"
    then have "c \<in> set (map snd (dim_category monotonically_increasing_id df_business))"
      by (simp only: dim_category_names set_drop_duplicates set_map) force
    then obtain cid where
      dim: "(cid, c) \<in> set (dim_category monotonically_increasing_id df_business)"
      by auto
    with ex have
      "(bid, cid) \<in> set (fact_business_categories monotonically_increasing_id df_business)"
      by (force simp: fact_business_categories_def set_inner_join)
    with dim show "\<exists>category_id.
          (category_id, c) \<in> set (dim_category monotonically_increasing_id df_business)
          \<and> (bid, category_id)
              \<in> set (fact_business_categories monotonically_increasing_id df_business)"
      by blast
  qed
next
  show "distinct (map pb_business_nk df_dim_business) \<and> distinct (map snd df_category)
        \<longrightarrow> (\<exists>rows. create_fact_business_categories df_business' df_category df_dim_business
                        = Inr rows)"
    by (rule impI) (rule bridge_returns)
next
  show "\<forall>rows. create_fact_business_categories df_business' df_category df_dim_business = Inr rows
        \<longrightarrow> distinct rows
            \<and> (\<forall>(business_key, category_key) \<in> set rows.
                  business_key \<in> pb_business_key ` set df_dim_business
                  \<and> category_key \<in> fst ` set df_category)"
    using bridge_rows by blast
qed

text \<open>
  The sample business \<open>b1\<close> lists \<open>Food, Bars, Food\<close>: both bridges hold the pair with
  \<open>Food\<close> once.
\<close>

theorem bridge_unique_and_referential_witness:
  "business_categories_exploded sample_businesses
     = [(Some ''b1'', ''Food''), (Some ''b1'', ''Bars''), (Some ''b1'', ''Food'')]
   \<and> dim_category int sample_businesses = [(0, ''Food''), (1, ''Bars'')]
   \<and> fact_business_categories int sample_businesses = [(Some ''b1'', 0), (Some ''b1'', 1)]
   \<and> distinct (fact_business_categories int sample_businesses)
   \<and> create_fact_business_categories (snd (create_dim_category sample_businesses))
        (fst (create_dim_category sample_businesses))
        (create_dim_business (snd (create_dim_category sample_businesses))
           (create_dim_location sample_businesses))
       = Inr [(1, 1), (1, 2)]"
proof -
  have ex: "business_categories_exploded sample_businesses
     = [(Some ''b1'', ''Food''), (Some ''b1'', ''Bars''), (Some ''b1'', ''Food'')]"
    by code_simp
  have dim: "dim_category int sample_businesses = [(0, ''Food''), (1, ''Bars'')]"
    by code_simp
  have br: "fact_business_categories int sample_businesses = [(Some ''b1'', 0), (Some ''b1'', 1)]"
    by code_simp
  have pd: "create_fact_business_categories (snd (create_dim_category sample_businesses))
        (fst (create_dim_category sample_businesses))
        (create_dim_business (snd (create_dim_category sample_businesses))
           (create_dim_location sample_businesses))
       = Inr [(1, 1), (1, 2)]"
    by code_simp
  from bridge_unique_and_referential [of int sample_businesses]
  have "distinct (fact_business_categories int sample_businesses)"
    by blast
  with ex dim br pd show ?thesis by blast
qed

section \<open>Category labels\<close>

text \<open>
  Claim C5, as stated, fails: the labels are stored as the split gives them. The category
  string \<open>Bars ,bars,Bars\<close> gives the business-owner pipeline the three labels
  \<open>Bars\<close> with a trailing space (not trimmed), \<open>bars\<close> and \<open>Bars\<close> (the same label up
  to case, both kept); and the investor pipeline, which removes only the empty string,
  stores the label \<open>null\<close>.
\<close>

theorem category_labels_counterexample:
  "map snd (dim_category int [mk_business (Some ''b1'') (Some ''Bars ,bars,Bars'')])
     = [''Bars '', ''bars'', ''Bars'']
   \<and> trim ''Bars '' \<noteq> ''Bars ''
   \<and> lower_case ''bars'' = lower_case ''Bars''
   \<and> map snd (fst (create_dim_category [mk_business (Some ''b1'') (Some ''null'')])) = [''null'']"
  by code_simp

text \<open>
  Claim C5, amended. No label of \<open>Dim_Category\<close> is empty and no label occurs twice, in
  the business-owner pipeline and in the investor pipeline; in the business-owner
  pipeline no label is the text \<open>null\<close>. Labels are compared as they are split: nothing
  trims them and nothing changes their case.
\<close>

theorem category_labels:
  "(\<forall>(category_id, category_name) \<in> set (dim_category monotonically_increasing_id df_business).
      category_name \<noteq> '''' \<and> category_name \<noteq> ''null'')
   \<and> distinct (map snd (dim_category monotonically_increasing_id df_business))
   \<and> (\<forall>(category_key, category_name) \<in> set (fst (create_dim_category df_business)).
        category_name \<noteq> '''')
   \<and> distinct (map snd (fst (create_dim_category df_business)))"
proof -
  have "set (map snd (dim_category monotonically_increasing_id df_business))
          = snd ` set (business_categories_exploded df_business)"
    by (simp only: dim_category_names set_drop_duplicates set_map)
  then have "\<And>i c. (i, c) \<in> set (dim_category monotonically_increasing_id df_business)
      \<Longrightarrow> \<exists>bid. (bid, c) \<in> set (business_categories_exploded df_business)"
    by (metis (no_types, lifting) image_iff list.set_map prod.collapse snd_conv)
  then have spark: "\<forall>(category_id, category_name)
        \<in> set (dim_category monotonically_increasing_id df_business).
      category_name \<noteq> '''' \<and> category_name \<noteq> ''null''"
    by (auto simp: exploded_mem)
  have sd: "distinct (map snd (dim_category monotonically_increasing_id df_business))"
    by (simp add: dim_category_names)
  have "c \<noteq> ''''" if "(k, c) \<in> set (fst (create_dim_category df_business))" for k c
  proof -
    from that have "c \<in> set (map snd (fst (create_dim_category df_business)))" by force
    then show ?thesis by (simp add: fst_create_dim_category)
  qed
  then have pandas: "\<forall>(category_key, category_name) \<in> set (fst (create_dim_category df_business)).
        category_name \<noteq> ''''"
    by blast
  have pdist: "distinct (map snd (fst (create_dim_category df_business)))"
    by (simp add: fst_create_dim_category)
  from spark sd pandas pdist show ?thesis by blast
qed

text \<open>
  The sample businesses list \<open>Food, Bars, Food\<close> and nothing: both dimensions hold the
  two labels once.
\<close>

theorem category_labels_witness:
  "dim_category int sample_businesses = [(0, ''Food''), (1, ''Bars'')]
   \<and> fst (create_dim_category sample_businesses) = [(1, ''Food''), (2, ''Bars'')]
   \<and> distinct (map snd (dim_category int sample_businesses))
   \<and> distinct (map snd (fst (create_dim_category sample_businesses)))"
proof -
  have dim: "dim_category int sample_businesses = [(0, ''Food''), (1, ''Bars'')]"
    by code_simp
  have pd: "fst (create_dim_category sample_businesses) = [(1, ''Food''), (2, ''Bars'')]"
    by code_simp
  from category_labels [of int sample_businesses]
  have "distinct (map snd (dim_category int sample_businesses))"
    "distinct (map snd (fst (create_dim_category sample_businesses)))"
    by blast+
  with dim pd show ?thesis by blast
qed

section \<open>Lifetime review count\<close>

text \<open>
  Claim C6, as stated, fails. In the business-owner pipeline \<open>F.count("review_id")\<close>
  does not count a review record without \<open>review_id\<close>: with one such review of the
  business \<open>b1\<close> the lifetime count is 0. In the investor pipeline \<open>Dim_Business\<close> does
  not count review records at all: it carries the \<open>review_count\<close> column of the source,
  which is null for a business whose source record has none.
\<close>

theorem lifetime_review_count_counterexample:
  "map r_business_id sample_reviews_without_id = [Some ''b1'']
   \<and> map db_business_id (dim_business [mk_business (Some ''b1'') None] sample_reviews_without_id)
       = [Some ''b1'']
   \<and> map db_overall_review_count
         (dim_business [mk_business (Some ''b1'') None] sample_reviews_without_id) = [0]
   \<and> map pb_review_count
         (create_dim_business [mk_business (Some ''b1'') None]
            (create_dim_location [mk_business (Some ''b1'') None])) = [None]"
  by code_simp

text \<open>
  Claim C6, amended. In the business-owner pipeline every business of the source has a
  row in \<open>Dim_Business\<close>, and the lifetime review count of a row is the number of review
  records with the business id of the row that carry a \<open>review_id\<close>, counted over all
  reviews: 0 when there is none, and 0 for a row whose business id is null; it is a
  number in every row. In the investor pipeline every business of the source has a row
  in \<open>Dim_Business\<close> and every row carries the \<open>review_count\<close> of its source record.
\<close>

theorem lifetime_review_count:
  "(\<forall>b \<in> set df_business. \<exists>row \<in> set (dim_business df_business df_review).
      db_business_id row = b_business_id b \<and> db_name row = b_name b)
   \<and> (\<forall>row \<in> set (dim_business df_business df_review).
        db_overall_review_count row =
          (case db_business_id row of
             None \<Rightarrow> 0
           | Some k \<Rightarrow> int (length (filter (\<lambda>r. r_business_id r = Some k \<and> r_review_id r \<noteq> None)
                                      df_review))))
   \<and> (\<forall>b \<in> set df_business. \<exists>row \<in> set (create_dim_business df_business df_location).
        pb_business_nk row = b_business_id b \<and> pb_name row = b_name b
        \<and> pb_review_count row = b_review_count b)
   \<and> (\<forall>row \<in> set (create_dim_business df_business df_location). \<exists>b \<in> set df_business.
        pb_business_nk row = b_business_id b \<and> pb_name row = b_name b
        \<and> pb_review_count row = b_review_count b)"
proof (intro conjI ballI)
  fix b assume "b \<in> set df_business"
  then show "\<exists>row \<in> set (dim_business df_business df_review).
      db_business_id row = b_business_id b \<and> db_name row = b_name b"
    using dim_business_total [of b df_business df_review] by blast
next
  fix row assume "row \<in> set (dim_business df_business df_review)"
  then obtain b stats where
    bs: "(b, stats) \<in> set (left_join (\<lambda>b (k, _, _). sql_eq (b_business_id b) k) df_business
                              (business_review_overall_stats df_review))"
    and id: "db_business_id row = b_business_id b"
    and n: "db_overall_review_count row = fill_0 (map_option (\<lambda>(_, _, n). n) stats)"
    unfolding dim_business_rows by auto
  show "db_overall_review_count row =
          (case db_business_id row of
             None \<Rightarrow> 0
           | Some k \<Rightarrow> int (length (filter (\<lambda>r. r_business_id r = Some k \<and> r_review_id r \<noteq> None)
                                      df_review)))"
  proof (cases stats)
    case None
    with bs have no: "\<forall>x \<in> set (business_review_overall_stats df_review).
        \<not> (case x of (k, _, _) \<Rightarrow> sql_eq (b_business_id b) k)"
      unfolding set_left_join by auto
    show ?thesis
    proof (cases "b_business_id b")
      case None
      then show ?thesis using n \<open>stats = None\<close> id by (simp add: fill_0_def)
    next
      case (Some k)
      have "Some k \<notin> r_business_id ` set df_review"
      proof
        assume "Some k \<in> r_business_id ` set df_review"
        then have "\<exists>a n. (Some k, a, n) \<in> set (business_review_overall_stats df_review)"
          by (simp add: stats_row)
        with no Some show False by (auto simp: sql_eq_def)
      qed
      then have "filter (\<lambda>r. r_business_id r = Some k \<and> r_review_id r \<noteq> None) df_review = []"
        unfolding filter_empty_conv by (metis imageI)
      then show ?thesis using n \<open>stats = None\<close> id Some by (simp add: fill_0_def)
    qed
  next
    case (Some s)
    obtain k a m where s: "s = (k, a, m)" by (cases s)
    with bs Some have "(k, a, m) \<in> set (business_review_overall_stats df_review)"
      "sql_eq (b_business_id b) k"
      unfolding set_left_join by auto
    then have m: "m = int (length (filter (\<lambda>r. r_business_id r = k \<and> r_review_id r \<noteq> None)
                                       df_review))"
      and "\<exists>k0. b_business_id b = Some k0 \<and> k = Some k0"
      by (simp_all add: stats_row sql_eq_Some)
    then obtain k0 where k0: "b_business_id b = Some k0" "k = Some k0" by blast
    show ?thesis using n Some s id k0 m by (simp add: fill_0_def)
  qed
next
  fix b assume "b \<in> set df_business"
  then show "\<exists>row \<in> set (create_dim_business df_business df_location).
        pb_business_nk row = b_business_id b \<and> pb_name row = b_name b
        \<and> pb_review_count row = b_review_count b"
    by (rule create_dim_business_total)
next
  fix row assume "row \<in> set (create_dim_business df_business df_location)"
  then show "\<exists>b \<in> set df_business.
        pb_business_nk row = b_business_id b \<and> pb_name row = b_name b
        \<and> pb_review_count row = b_review_count b"
    by (rule create_dim_business_rows)
qed

text \<open>
  On the sample input the business \<open>b1\<close> has four reviews, all with a \<open>review_id\<close>, and
  the business \<open>b2\<close> has none; the listed business carries the review count 7 of its
  source record.
\<close>

theorem lifetime_review_count_witness:
  "map db_business_id (dim_business sample_businesses sample_reviews) = [Some ''b1'', Some ''b2'']
   \<and> map db_overall_review_count (dim_business sample_businesses sample_reviews) = [4, 0]
   \<and> int (length (filter (\<lambda>r. r_business_id r = Some ''b1'' \<and> r_review_id r \<noteq> None)
                     sample_reviews)) = 4
   \<and> map pb_review_count
         (create_dim_business [sample_listed_business] (create_dim_location [sample_listed_business]))
       = [Some 7]"
proof -
  let ?row = "\<lparr>db_business_id = Some ''b1'', db_name = Some ''Cafe'',
               db_subcategory = Some ''Bars'', db_is_open = Some True,
               db_overall_avg_rating = Some 4, db_overall_review_count = 4\<rparr>"
  have tab: "dim_business sample_businesses sample_reviews
     = [?row,
        \<lparr>db_business_id = Some ''b2'', db_name = Some ''Cafe'',
         db_subcategory = None, db_is_open = Some True,
         db_overall_avg_rating = None, db_overall_review_count = 0\<rparr>]"
    by code_simp
  have pd: "map pb_review_count
         (create_dim_business [sample_listed_business] (create_dim_location [sample_listed_business]))
       = [Some 7]"
    by code_simp
  have "?row \<in> set (dim_business sample_businesses sample_reviews)"
    unfolding tab by simp
  with lifetime_review_count [of sample_businesses sample_reviews]
  have "db_overall_review_count ?row =
          (case db_business_id ?row of
             None \<Rightarrow> 0
           | Some k \<Rightarrow> int (length (filter (\<lambda>r. r_business_id r = Some k \<and> r_review_id r \<noteq> None)
                                      sample_reviews)))"
    by blast
  then have "int (length (filter (\<lambda>r. r_business_id r = Some ''b1'' \<and> r_review_id r \<noteq> None)
                     sample_reviews)) = 4"
    by simp
  with tab pd show ?thesis by simp
qed

section \<open>Engagement score\<close>

text \<open>
  Claim C7. Every row of \<open>Fact_Business_Performance\<close> has the engagement score
  review count times 1.0 plus tip count times 0.5 plus check-in count times 0.2 plus the
  reserved photo term, photo count times 0.25, and the photo count of every row is 0; a
  row with 4 reviews, 2 tips and 5 check-ins has the score 6. The weights are exact
  rationals in the model.
\<close>

theorem engagement_score_weights:
  "\<forall>p \<in> set (fact_business_performance to_date df_review df_checkin df_tip).
      p_engagement_score p =
        of_int (p_review_count p) * 1 + of_int (p_tip_count p) * (1 / 2)
        + of_int (p_checkin_count p) * (1 / 5) + of_int (p_photo_count p) * (1 / 4)
      \<and> p_photo_count p = 0
      \<and> (p_review_count p = 4 \<and> p_tip_count p = 2 \<and> p_checkin_count p = 5
           \<longrightarrow> p_engagement_score p = 6)"
  by (auto simp: fact_business_performance_def fact_table_final_monthly_def
      engagement_score_def photo_count_monthly_def)

text \<open>The sample input has one business with 4 reviews, 2 tips and 5 check-ins in one month.\<close>

theorem engagement_score_weights_witness:
  "fact_business_performance sample_to_date sample_reviews sample_checkins sample_tips
     = [\<lparr>p_business_id = Some ''b1'', p_month_id = ''201801'', p_review_count = 4,
         p_checkin_count = 5, p_tip_count = 2, p_photo_count = 0,
         p_engagement_score = 6, p_growth_rate = None\<rparr>]
   \<and> p_engagement_score
        (hd (fact_business_performance sample_to_date sample_reviews sample_checkins sample_tips))
       = 6"
proof -
  have tab: "fact_business_performance sample_to_date sample_reviews sample_checkins sample_tips
     = [\<lparr>p_business_id = Some ''b1'', p_month_id = ''201801'', p_review_count = 4,
         p_checkin_count = 5, p_tip_count = 2, p_photo_count = 0,
         p_engagement_score = 6, p_growth_rate = None\<rparr>]"
    by code_simp
  then have "hd (fact_business_performance sample_to_date sample_reviews sample_checkins sample_tips)
      \<in> set (fact_business_performance sample_to_date sample_reviews sample_checkins sample_tips)"
    by simp
  with engagement_score_weights [of sample_to_date sample_reviews sample_checkins sample_tips]
  have "p_engagement_score
        (hd (fact_business_performance sample_to_date sample_reviews sample_checkins sample_tips))
       = 6"
    unfolding tab by simp
  with tab show ?thesis by blast
qed

section \<open>Exceptions of table construction\<close>

text \<open>
  Claim C8 says that no exception escapes the construction of a table. The investor
  pipeline parses the review dates with \<open>pd.to_datetime\<close> without \<open>errors='coerce'\<close>
  (the check-in pieces are parsed with it, two lines below): whenever one review has a
  date string that does not parse, \<open>create_dim_date\<close> and
  \<open>create_fact_business_performance\<close> raise, and so does the run.
\<close>

theorem unparseable_review_date_raises:
  assumes "r \<in> set df_review" "r_date r = Some s" "to_datetime s = None"
  shows "create_dim_date to_datetime dayofweek df_review df_checkin = Inl DateParseError
       \<and> create_fact_business_performance to_datetime df_review df_checkin
             df_dim_business df_dim_date
           = Inl DateParseError
       \<and> main to_datetime dayofweek df_business df_review df_checkin = Inl DateParseError"
proof -
  from assms have
    "list_ex (\<lambda>x. case x of None \<Rightarrow> False | Some s \<Rightarrow> to_datetime s = None) (map r_date df_review)"
    unfolding list_ex_iff by force
  then have raise: "to_datetime_raise to_datetime (map r_date df_review) = Inl DateParseError"
    by (simp add: to_datetime_raise_def)
  then have d: "create_dim_date to_datetime dayofweek df_review df_checkin = Inl DateParseError"
    by (simp add: create_dim_date_def)
  from raise have
    "create_fact_business_performance to_datetime df_review df_checkin df_dim_business df_dim_date
       = Inl DateParseError"
    by (simp add: create_fact_business_performance_def Let_def)
  moreover from d have
    "main to_datetime dayofweek df_business df_review df_checkin = Inl DateParseError"
    by (simp add: main_def Let_def case_prod_unfold)
  ultimately show ?thesis using d by blast
qed

text \<open>
  The failing input: one review with the date \<open>not a date\<close>. The same text as a piece of
  a check-in string is dropped and the other piece of the string is kept.
\<close>

theorem unparseable_review_date_raises_witness:
  "sample_bad_review \<in> set [sample_bad_review]
   \<and> r_date sample_bad_review = Some ''not a date''
   \<and> sample_to_date ''not a date'' = None
   \<and> create_dim_date sample_to_date sample_dt_dayofweek [sample_bad_review] [] = Inl DateParseError
   \<and> create_fact_business_performance sample_to_date [sample_bad_review] [] [] []
       = Inl DateParseError
   \<and> main sample_to_date sample_dt_dayofweek sample_businesses [sample_bad_review] []
       = Inl DateParseError
   \<and> map_sum id (map pdd_date_key)
        (create_dim_date sample_to_date sample_dt_dayofweek [] [sample_bad_checkin])
       = Inr [20180105]"
proof -
  have m: "sample_bad_review \<in> set [sample_bad_review]" by simp
  have d: "r_date sample_bad_review = Some ''not a date''"
    by (simp add: sample_bad_review_def mk_review_def)
  have p: "sample_to_date ''not a date'' = None"
    by (simp add: sample_to_date_def)
  have c: "map_sum id (map pdd_date_key)
        (create_dim_date sample_to_date sample_dt_dayofweek [] [sample_bad_checkin])
       = Inr [20180105]"
    by code_simp
  note raises = unparseable_review_date_raises [where r = sample_bad_review
      and df_review = "[sample_bad_review]" and s = "''not a date''"
      and to_datetime = sample_to_date and dayofweek = sample_dt_dayofweek
      and df_checkin = "[]" and df_dim_business = "[]" and df_dim_date = "[]"
      and df_business = sample_businesses]
  from raises [OF m d p] m d p c show ?thesis by simp
qed

section \<open>Subcategory\<close>

text \<open>
  Claim C9, as stated, fails: the category string \<open>A,,B\<close> splits into \<open>A\<close>, the empty
  string and \<open>B\<close>, so the split list has two elements that are neither empty nor
  \<open>null\<close>, yet the subcategory is null and not the second element of the list.
\<close>

theorem subcategory_counterexample:
  "\<not> (2 \<le> length (filter is_category (split_comma_ws ''A,,B''))
      \<longrightarrow> subcategory (mk_business (Some ''b1'') (Some ''A,,B''))
            = Some (split_comma_ws ''A,,B'' ! 1))"
  by (simp add: subcategory_def category_array_def mk_business_def split_comma_ws_def
      is_category_def is_space_def)

text \<open>
  Claim C9, amended. Every business has a row in \<open>Dim_Business\<close> with its subcategory
  and every row is the row of a business; the subcategory is the second element of the
  category string split on a comma and the whitespace after it when the split list has
  at least two elements and that second element is neither empty nor \<open>null\<close>, and it is
  null otherwise (also for a null category string).
\<close>

theorem subcategory_second_element:
  "(\<forall>b \<in> set df_business. \<exists>row \<in> set (dim_business df_business df_review).
      db_business_id row = b_business_id b \<and> db_name row = b_name b
      \<and> db_subcategory row = subcategory b)
   \<and> (\<forall>row \<in> set (dim_business df_business df_review). \<exists>b \<in> set df_business.
      db_business_id row = b_business_id b \<and> db_name row = b_name b
      \<and> db_subcategory row = subcategory b)
   \<and> (\<forall>b. subcategory b =
        (case b_categories b of
           None \<Rightarrow> None
         | Some s \<Rightarrow>
             if 1 < length (split_comma_ws s) \<and> split_comma_ws s ! 1 \<noteq> ''''
                \<and> split_comma_ws s ! 1 \<noteq> ''null''
             then Some (split_comma_ws s ! 1) else None))"
proof (intro conjI ballI allI)
  fix b assume "b \<in> set df_business"
  then show "\<exists>row \<in> set (dim_business df_business df_review).
      db_business_id row = b_business_id b \<and> db_name row = b_name b
      \<and> db_subcategory row = subcategory b"
    by (rule dim_business_total)
next
  fix row assume "row \<in> set (dim_business df_business df_review)"
  then show "\<exists>b \<in> set df_business.
      db_business_id row = b_business_id b \<and> db_name row = b_name b
      \<and> db_subcategory row = subcategory b"
    by (rule dim_business_origin)
next
  fix b show "subcategory b =
        (case b_categories b of
           None \<Rightarrow> None
         | Some s \<Rightarrow>
             if 1 < length (split_comma_ws s) \<and> split_comma_ws s ! 1 \<noteq> ''''
                \<and> split_comma_ws s ! 1 \<noteq> ''null''
             then Some (split_comma_ws s ! 1) else None)"
    by (simp add: subcategory_def category_array_def split: option.splits)
qed

text \<open>
  On the sample input the business \<open>b1\<close> lists \<open>Food, Bars, Food\<close> and gets the
  subcategory \<open>Bars\<close>; the business \<open>b2\<close> has no category string and gets none.
\<close>

theorem subcategory_second_element_witness:
  "map db_business_id (dim_business sample_businesses sample_reviews) = [Some ''b1'', Some ''b2'']
   \<and> map db_subcategory (dim_business sample_businesses sample_reviews) = [Some ''Bars'', None]
   \<and> subcategory (mk_business (Some ''b1'') (Some ''Food, Bars, Food'')) = Some ''Bars''
   \<and> subcategory (mk_business (Some ''b2'') None) = None"
proof -
  have ids: "map db_business_id (dim_business sample_businesses sample_reviews)
             = [Some ''b1'', Some ''b2'']"
    by code_simp
  have subs: "map db_subcategory (dim_business sample_businesses sample_reviews)
              = [Some ''Bars'', None]"
    by code_simp
  have sp: "split_comma_ws ''Food, Bars, Food'' = [''Food'', ''Bars'', ''Food'']"
    by code_simp
  from subcategory_second_element [of sample_businesses sample_reviews]
  have sub: "\<And>b. subcategory b =
        (case b_categories b of
           None \<Rightarrow> None
         | Some s \<Rightarrow>
             if 1 < length (split_comma_ws s) \<and> split_comma_ws s ! 1 \<noteq> ''''
                \<and> split_comma_ws s ! 1 \<noteq> ''null''
             then Some (split_comma_ws s ! 1) else None)"
    by blast
  have "subcategory (mk_business (Some ''b1'') (Some ''Food, Bars, Food'')) = Some ''Bars''"
    by (subst sub) (simp add: mk_business_def sp)
  moreover have "subcategory (mk_business (Some ''b2'') None) = None"
    by (subst sub) (simp add: mk_business_def)
  ultimately show ?thesis using ids subs by blast
qed

section \<open>Frame effect of the category dimension build\<close>

text \<open>
  Claim C10. \<open>create_dim_category\<close> leaves the frame it was given with every record as
  it was but for \<open>categories\<close>, which holds the empty string where it was null (and its
  old string elsewhere); so the frame is changed whenever a record had a null category
  string. In a run that completes, the frame at the end is that changed frame, and
  \<open>create_dim_business\<close> and \<open>create_fact_business_categories\<close> were called on it.
\<close>

theorem create_dim_category_mutates_frame:
  "length (snd (create_dim_category df_business)) = length df_business
   \<and> (\<forall>i < length df_business.
        snd (create_dim_category df_business) ! i
          = (df_business ! i)\<lparr>b_categories := Some (fillna_empty (b_categories (df_business ! i)))\<rparr>
        \<and> (b_categories (df_business ! i) = None
             \<longrightarrow> b_categories (snd (create_dim_category df_business) ! i) = Some ''''))
   \<and> ((\<exists>b \<in> set df_business. b_categories b = None)
        \<longrightarrow> snd (create_dim_category df_business) \<noteq> df_business)
   \<and> (\<forall>out. main to_datetime dayofweek df_business df_review df_checkin = Inr out \<longrightarrow>
         out_df_business out = snd (create_dim_category df_business)
         \<and> out_dim_business out
             = create_dim_business (snd (create_dim_category df_business))
                 (create_dim_location df_business)
         \<and> create_fact_business_categories (snd (create_dim_category df_business))
               (fst (create_dim_category df_business)) (out_dim_business out)
             = Inr (out_fact_business_categories out))"
proof (intro conjI allI impI)
  show "length (snd (create_dim_category df_business)) = length df_business"
    by (simp add: snd_create_dim_category)
next
  fix i assume "i < length df_business"
  then show "snd (create_dim_category df_business) ! i
          = (df_business ! i)\<lparr>b_categories := Some (fillna_empty (b_categories (df_business ! i)))\<rparr>"
    by (simp add: snd_create_dim_category)
next
  fix i assume "i < length df_business" "b_categories (df_business ! i) = None"
  then show "b_categories (snd (create_dim_category df_business) ! i) = Some ''''"
    by (simp add: snd_create_dim_category fillna_empty_def)
next
  assume "\<exists>b \<in> set df_business. b_categories b = None"
  then obtain b where b: "b \<in> set df_business" "b_categories b = None" by blast
  show "snd (create_dim_category df_business) \<noteq> df_business"
  proof
    assume "snd (create_dim_category df_business) = df_business"
    with b(1) have "b \<in> set (snd (create_dim_category df_business))" by simp
    then have "b_categories b \<noteq> None" by (auto simp: snd_create_dim_category)
    with b(2) show False by simp
  qed
next
  fix out assume "main to_datetime dayofweek df_business df_review df_checkin = Inr out"
  then show "out_df_business out = snd (create_dim_category df_business)"
    "out_dim_business out
             = create_dim_business (snd (create_dim_category df_business))
                 (create_dim_location df_business)"
    "create_fact_business_categories (snd (create_dim_category df_business))
               (fst (create_dim_category df_business)) (out_dim_business out)
             = Inr (out_fact_business_categories out)"
    by (auto simp: main_def Let_def case_prod_unfold split: sum.splits)
qed

text \<open>
  The second sample business has a null category string: after the build of the category
  dimension it has the empty string, and the run on the sample input ends with that frame.
\<close>

theorem create_dim_category_mutates_frame_witness:
  "map b_categories sample_businesses = [Some ''Food, Bars, Food'', None]
   \<and> map b_categories (snd (create_dim_category sample_businesses))
       = [Some ''Food, Bars, Food'', Some '''']
   \<and> snd (create_dim_category sample_businesses) \<noteq> sample_businesses
   \<and> \<not> isl (main sample_to_date sample_dt_dayofweek sample_businesses sample_reviews sample_checkins)
   \<and> out_df_business
        (projr (main sample_to_date sample_dt_dayofweek sample_businesses sample_reviews
                  sample_checkins))
       = snd (create_dim_category sample_businesses)"
proof -
  let ?run = "main sample_to_date sample_dt_dayofweek sample_businesses sample_reviews sample_checkins"
  have raw: "map b_categories sample_businesses = [Some ''Food, Bars, Food'', None]"
    by code_simp
  have after: "map b_categories (snd (create_dim_category sample_businesses))
       = [Some ''Food, Bars, Food'', Some '''']"
    by code_simp
  have ok: "\<not> isl ?run"
    by code_simp
  then obtain out where out: "?run = Inr out"
    by (cases ?run) auto
  have null: "\<exists>b \<in> set sample_businesses. b_categories b = None"
    by code_simp
  note frame = create_dim_category_mutates_frame [of sample_businesses sample_to_date
      sample_dt_dayofweek sample_reviews sample_checkins]
  from frame [THEN conjunct2, THEN conjunct2, THEN conjunct1] null
  have ne: "snd (create_dim_category sample_businesses) \<noteq> sample_businesses"
    by (rule mp)
  from frame [THEN conjunct2, THEN conjunct2, THEN conjunct2, rule_format, OF out]
  have fin: "out_df_business out = snd (create_dim_category sample_businesses)"
    by (rule conjunct1)
  from out have "projr ?run = out" by simp
  with fin have fin': "out_df_business (projr ?run) = snd (create_dim_category sample_businesses)"
    by simp
  from raw after ne ok fin' show ?thesis
    by (intro conjI)
qed

end
